theory Spec2Isabelle
  imports Complex_Main "HOL-Library.Word" "HOL-Library.AList"
begin

section \<open>Data of the program (src/main.cc)\<close>

text \<open>
  The program is a command-line driver over an external inference runtime. Its own
  logic is argument parsing, the loading of raw input files into tensors, the dispatch
  between the benchmark and the inference path, and the printing of results. Everything
  the runtime does is a call through an interface; calls are recorded in a trace, and what
  they return is a parameter of the model (the record \<open>world\<close> below).
\<close>

type_synonym byte = "8 word"

text \<open>A \<open>ShapeTuple\<close> holds \<open>int64_t\<close> dimensions.\<close>

type_synonym ShapeTuple = "64 word list"

text \<open>
  \<open>DLDataType\<close> of dlpack.h: \<open>uint8_t code; uint8_t bits; uint16_t lanes\<close>, with the
  type codes \<open>kDLInt = 0\<close>, \<open>kDLUInt = 1\<close>, \<open>kDLFloat = 2\<close>; \<open>DLDevice\<close> is a device type
  and a device index, \<open>kDLCPU = 1\<close>.
\<close>

record DLDataType =
  code :: "8 word"
  bits :: "8 word"
  lanes :: "16 word"

record DLDevice =
  device_type :: int
  device_id :: int

definition kDLInt :: "8 word" where "kDLInt = 0"
definition kDLUInt :: "8 word" where "kDLUInt = 1"
definition kDLFloat :: "8 word" where "kDLFloat = 2"
definition kDLCPU :: int where "kDLCPU = 1"

text \<open>
  A tensor of the runtime, as far as the program looks at it: its shape, element type and
  device, and the bytes it holds.
\<close>

record NDArray =
  Shape :: ShapeTuple
  DataType :: DLDataType
  Device :: DLDevice
  data :: "byte list"

text \<open>A path of the file system names a regular file with its bytes, or something else.\<close>

datatype fs_entry = Regular "byte list" | NotRegular

subsection \<open>Failures and the trace of calls\<close>

text \<open>
  Every way the source stops early is a value: a failed \<open>ICHECK\<close> of the program, a
  \<open>tvm::Map\<close> subscript with a missing key, undefined behaviour of C++ (signed overflow,
  a read past the end of a buffer), or a call of the runtime that fails.
\<close>

datatype failure =
    ICHECK_failed string
  | ICHECK_EQ_failed nat nat
  | ICHECK_NE_failed string
  | ICHECK_GE_failed nat nat
  | Map_key_missing string
  | Undefined_behaviour string
  | Runtime_failed string

datatype 'd event =
    E_enter string
  | E_LoadFromFile string
  | E_default DLDevice
  | E_get_input_info
  | E_exists string
  | E_ifstream string
  | E_Empty ShapeTuple DLDataType DLDevice
  | E_read string
  | E_CopyFromBytes nat
  | E_set_input string NDArray
  | E_LOG string
  | E_run
  | E_get_output nat
  | E_get_input nat
  | E_get_num_inputs
  | E_get_num_outputs
  | E_getenv string
  | E_RPCTimeEvaluator string int int int int int string
  | E_time_eval "NDArray list"
  | E_cout_fixed_setprecision nat
  | E_printf int int
  | E_cout_float "byte list"
  | E_cout_string string
  | E_cout_endl
  | E_cout_double 'd

text \<open>
  An event \<open>E_enter f\<close> marks the entry into the function \<open>f\<close> of the source; the other
  events are the calls the program makes, to the runtime, the file system, the environment
  and the output streams, with their arguments. The lookups \<open>gmod.GetFunction(...)\<close> at
  the top of \<open>inference\<close> and \<open>evaluate\<close> call nothing and are left out: a function that is
  missing fails when it is called.
\<close>

text \<open>
  The world the program runs in: the file system, the environment, and the operations of
  the external runtime (spec section 6). \<open>'m\<close> is a loaded module, \<open>'g\<close> the graph
  executor, \<open>'d\<close> the type \<open>double\<close>. A call that returns \<open>None\<close> has failed.
\<close>

record ('m, 'g, 'd) world =
  files :: "string \<Rightarrow> fs_entry option"
  getenv :: "string \<Rightarrow> string option"
  LoadFromFile :: "string \<Rightarrow> 'm option"
  mod_default :: "'m \<Rightarrow> DLDevice \<Rightarrow> 'g option"
  get_input_info :: "'g \<Rightarrow> ((string \<Rightarrow> ShapeTuple option) \<times> (string \<Rightarrow> string option)) option"
  Empty :: "ShapeTuple \<Rightarrow> DLDataType \<Rightarrow> DLDevice \<Rightarrow> NDArray option"
  CopyFromBytes :: "NDArray \<Rightarrow> byte list \<Rightarrow> nat \<Rightarrow> NDArray option"
  set_input :: "'g \<Rightarrow> string \<Rightarrow> NDArray \<Rightarrow> 'g option"
  run :: "'g \<Rightarrow> 'g option"
  get_output :: "'g \<Rightarrow> nat \<Rightarrow> NDArray option"
  get_input :: "'g \<Rightarrow> nat \<Rightarrow> NDArray option"
  get_num_inputs :: "'g \<Rightarrow> nat"
  get_num_outputs :: "'g \<Rightarrow> nat"
  RPCTimeEvaluator :: "'g \<Rightarrow> string \<Rightarrow> int \<Rightarrow> int \<Rightarrow> int \<Rightarrow> int \<Rightarrow> int \<Rightarrow> string
                         \<Rightarrow> (NDArray list \<Rightarrow> 'd list option) option"

text \<open>
  A computation yields the calls it made, in order, and a failure or a value. \<open>seq\<close> runs
  one computation after another and stops at the first failure.
\<close>

type_synonym ('d, 'a) comp = "'d event list \<times> (failure + 'a)"

definition ok :: "'a \<Rightarrow> ('d, 'a) comp" where
  "ok a = ([], Inr a)"

definition fail :: "failure \<Rightarrow> ('d, 'a) comp" where
  "fail e = ([], Inl e)"

definition emit :: "'d event \<Rightarrow> ('d, unit) comp" where
  "emit e = ([e], Inr ())"

definition call :: "'d event \<Rightarrow> 'a option \<Rightarrow> string \<Rightarrow> ('d, 'a) comp" where
  "call e r what = ([e], case r of None \<Rightarrow> Inl (Runtime_failed what) | Some a \<Rightarrow> Inr a)"

text \<open>A step of the source that has a value unless its behaviour is undefined.\<close>

definition defined :: "'a option \<Rightarrow> string \<Rightarrow> ('d, 'a) comp" where
  "defined r what = ([], case r of None \<Rightarrow> Inl (Undefined_behaviour what) | Some a \<Rightarrow> Inr a)"

definition seq :: "('d, 'a) comp \<Rightarrow> ('a \<Rightarrow> ('d, 'b) comp) \<Rightarrow> ('d, 'b) comp" where
  "seq m f = (case m of
       (t, Inl e) \<Rightarrow> (t, Inl e)
     | (t, Inr a) \<Rightarrow> (case f a of (t', r) \<Rightarrow> (t @ t', r)))"

section \<open>Argument parsing (main, lines 144-160)\<close>

text \<open>
  \<open>tmp.find(":")\<close>: the position of the first colon, or \<open>npos\<close> (\<open>None\<close>).
\<close>

primrec find_chr :: "char \<Rightarrow> string \<Rightarrow> nat option" where
  "find_chr c [] = None"
| "find_chr c (x # xs) = (if x = c then Some 0 else map_option Suc (find_chr c xs))"

text \<open>\<open>tmp.substr(pos)\<close> and \<open>tmp.substr(0, n)\<close>, for positions inside the string.\<close>

definition substr :: "string \<Rightarrow> nat \<Rightarrow> nat \<Rightarrow> string" where
  "substr s pos n = take n (drop pos s)"

definition substr_from :: "string \<Rightarrow> nat \<Rightarrow> string" where
  "substr_from s pos = drop pos s"

text \<open>
  One round of the loop of \<open>main\<close> up to the insertion: find the colon, check it was
  found, cut the argument in two.
\<close>

definition parse_arg :: "string \<Rightarrow> failure + (string \<times> string)" where
  "parse_arg tmp = (case find_chr CHR '':'' tmp of
       None \<Rightarrow> Inl (ICHECK_NE_failed ''input format must be input_name:input'')
     | Some center \<Rightarrow> Inr (substr tmp 0 center, substr_from tmp (center + 1)))"

text \<open>
  The loop over \<open>argv[2..]\<close>. \<open>input_paths[k] = v\<close> on a \<open>std::unordered_map\<close> overwrites
  the value of a key that is present and inserts a key that is not; the map is kept as an
  association list with distinct keys. The order in which a \<open>std::unordered_map\<close> is
  iterated is unspecified; the list fixes one, and no theorem depends on which.
\<close>

fun parse_args :: "string list \<Rightarrow> (string \<times> string) list \<Rightarrow> failure + (string \<times> string) list" where
  "parse_args [] input_paths = Inr input_paths"
| "parse_args (tmp # rest) input_paths = (case parse_arg tmp of
       Inl e \<Rightarrow> Inl e
     | Inr (name, path) \<Rightarrow> parse_args rest (AList.update name path input_paths))"

section \<open>Loading the inputs (inference, lines 28-64)\<close>

text \<open>
  \<open>std::accumulate(first, last, 1, std::multiplies<size_t>())\<close>. The accumulator has the
  type of the initial value, which is the \<open>int\<close> literal 1: each round converts the
  accumulator and the dimension to \<open>size_t\<close>, multiplies them there, and stores the
  product back into the \<open>int\<close>, which keeps its low 32 bits (the conversion is modular
  on the usual compilers, and by rule since C++20).
\<close>

fun accumulate :: "ShapeTuple \<Rightarrow> 32 word \<Rightarrow> 32 word" where
  "accumulate [] init = init"
| "accumulate (d # ds) init = accumulate ds (ucast ((scast init :: 64 word) * d))"

text \<open>
  \<open>size_t input_size = accumulate(...) * (dtype.bits / 8)\<close>: an \<open>int\<close> times an \<open>int\<close>
  (\<open>bits\<close> is promoted), undefined when the product leaves the range of \<open>int\<close>
  (\<open>None\<close>), then converted to \<open>size_t\<close>.
\<close>

definition input_size :: "ShapeTuple \<Rightarrow> DLDataType \<Rightarrow> nat option" where
  "input_size shape dtype =
     (let p = sint (accumulate shape 1) * (uint (bits dtype) div 8)
      in if - (2 ^ 31) \<le> p \<and> p < 2 ^ 31 then Some (unat (word_of_int p :: 64 word))
         else None)"

text \<open>
  The expected length in the words of the spec: the product of the dimensions times the
  bit width, divided by 8, in unbounded arithmetic. The theorems below compare the
  \<open>input_size\<close> of the source with it.
\<close>

definition expected_length :: "ShapeTuple \<Rightarrow> DLDataType \<Rightarrow> nat" where
  "expected_length shape dtype = prod_list (map unat shape) * unat (bits dtype) div 8"

text \<open>The static table of line 41.\<close>

definition dtype_map :: "(string \<times> DLDataType) list" where
  "dtype_map =
    [(''float32'', \<lparr>code = kDLFloat, bits = 32, lanes = 1\<rparr>),
     (''float16'', \<lparr>code = kDLFloat, bits = 16, lanes = 1\<rparr>),
     (''int8'', \<lparr>code = kDLInt, bits = 8, lanes = 1\<rparr>),
     (''uint8'', \<lparr>code = kDLUInt, bits = 8, lanes = 1\<rparr>),
     (''int16'', \<lparr>code = kDLInt, bits = 16, lanes = 1\<rparr>),
     (''uint16'', \<lparr>code = kDLUInt, bits = 16, lanes = 1\<rparr>)]"

text \<open>
  \<open>m[k]\<close> on a \<open>std::unordered_map\<close>: the value of a key that is present; a key that is
  not present is inserted with a value-initialised value, and that value is returned.
  For \<open>DLDataType\<close> the value-initialised value has all three fields zero.
\<close>

definition zero_DLDataType :: DLDataType where
  "zero_DLDataType = \<lparr>code = 0, bits = 0, lanes = 0\<rparr>"

definition unordered_map_index ::
    "(string \<times> DLDataType) list \<Rightarrow> string \<Rightarrow> DLDataType \<times> (string \<times> DLDataType) list" where
  "unordered_map_index m k = (case map_of m k of
       Some v \<Rightarrow> (v, m)
     | None \<Rightarrow> (zero_DLDataType, m @ [(k, zero_DLDataType)]))"

text \<open>\<open>m[k]\<close> on a \<open>tvm::Map\<close> of the runtime: a missing key is an error of the runtime.\<close>

definition Map_at :: "(string \<Rightarrow> 'a option) \<Rightarrow> string \<Rightarrow> ('d, 'a) comp" where
  "Map_at m k = (case m k of None \<Rightarrow> fail (Map_key_missing k) | Some v \<Rightarrow> ok v)"

definition is_regular_file :: "(string \<Rightarrow> fs_entry option) \<Rightarrow> string \<Rightarrow> bool" where
  "is_regular_file fs path = (case fs path of Some (Regular _) \<Rightarrow> True | _ \<Rightarrow> False)"

definition read_all :: "(string \<Rightarrow> fs_entry option) \<Rightarrow> string \<Rightarrow> byte list" where
  "read_all fs path = (case fs path of Some (Regular bs) \<Rightarrow> bs | _ \<Rightarrow> [])"

text \<open>
  The body of the loop over \<open>input_paths\<close> (lines 48-63), in the order of the source:
  the check of the path, the two lookups, the expected size, the stream, the allocation
  of the tensor, the read of the file, the check of the length, the copy, \<open>set_input\<close>.
  The executor and the table \<open>dtype_map\<close> (which a lookup may extend) are the state.
\<close>

definition load_input ::
    "('m, 'g, 'd) world \<Rightarrow> (string \<Rightarrow> ShapeTuple option) \<Rightarrow> (string \<Rightarrow> string option) \<Rightarrow> DLDevice
       \<Rightarrow> string \<times> string \<Rightarrow> 'g \<times> (string \<times> DLDataType) list
       \<Rightarrow> ('d, 'g \<times> (string \<times> DLDataType) list) comp" where
  "load_input w shape_info dtype_info dev entry st =
    (case entry of (name, path) \<Rightarrow> case st of (gmod, dm) \<Rightarrow>
     seq (emit (E_exists path)) (\<lambda>_.
     seq (if is_regular_file (files w) path then ok ()
          else fail (ICHECK_failed (path @ '' is not exist or not a file''))) (\<lambda>_.
     seq (Map_at shape_info name) (\<lambda>shape.
     seq (Map_at dtype_info name) (\<lambda>dtype_name.
     case unordered_map_index dm dtype_name of (dtype, dm') \<Rightarrow>
     seq (defined (input_size shape dtype) ''signed integer overflow'') (\<lambda>input_size.
     seq (emit (E_ifstream path)) (\<lambda>_.
     seq (call (E_Empty shape dtype dev) (Empty w shape dtype dev) ''NDArray::Empty'') (\<lambda>x.
     seq (emit (E_read path)) (\<lambda>_.
     let buffer = read_all (files w) path in
     seq (if length buffer = input_size then ok ()
          else fail (ICHECK_EQ_failed (length buffer) input_size)) (\<lambda>_.
     seq (call (E_CopyFromBytes input_size) (CopyFromBytes w x buffer input_size)
            ''CopyFromBytes'') (\<lambda>x'.
     seq (call (E_set_input name x') (set_input w gmod name x') ''set_input'') (\<lambda>gmod'.
     ok (gmod', dm')))))))))))))"

fun load_inputs ::
    "('m, 'g, 'd) world \<Rightarrow> (string \<Rightarrow> ShapeTuple option) \<Rightarrow> (string \<Rightarrow> string option) \<Rightarrow> DLDevice
       \<Rightarrow> (string \<times> string) list \<Rightarrow> 'g \<times> (string \<times> DLDataType) list
       \<Rightarrow> ('d, 'g \<times> (string \<times> DLDataType) list) comp" where
  "load_inputs w shape_info dtype_info dev [] st = ok st"
| "load_inputs w shape_info dtype_info dev (entry # rest) st =
     seq (load_input w shape_info dtype_info dev entry st)
       (load_inputs w shape_info dtype_info dev rest)"

section \<open>Printing the output (inference, lines 66-85)\<close>

text \<open>
  \<open>((float*)output->data)[k]\<close>: the four bytes of the \<open>k\<close>-th \<open>float\<close>, as they lie in
  the buffer; a read past the end of the buffer is undefined (\<open>None\<close>).
\<close>

definition float_at :: "byte list \<Rightarrow> nat \<Rightarrow> byte list option" where
  "float_at bs k = (if 4 * k + 4 \<le> length bs then Some (take 4 (drop (4 * k) bs)) else None)"

text \<open>
  The inner loop: \<open>for (int j = 0; j < 10 && i * 10 + j < output_num; j++)\<close>.
\<close>

function print_values :: "byte list \<Rightarrow> nat \<Rightarrow> nat \<Rightarrow> nat \<Rightarrow> ('d, unit) comp" where
  "print_values bs output_num i j =
     (if j < 10 \<and> i * 10 + j < output_num then
        seq (defined (float_at bs (i * 10 + j)) ''read past the end of the output'') (\<lambda>v.
        seq (emit (E_cout_float v)) (\<lambda>_.
        seq (emit (E_cout_string '', '')) (\<lambda>_.
        print_values bs output_num i (j + 1))))
      else ok ())"
  by pat_completeness auto
termination
  by (relation "measure (\<lambda>(bs, output_num, i, j). 10 - j)") auto

declare print_values.simps [simp del]

text \<open>
  The outer loop: \<open>for (int i = 0; i < output_num / 10; i++)\<close>, with \<open>i\<close> an \<open>int\<close>; the
  arguments of \<open>printf\<close> are computed in \<open>int\<close>, which is undefined once \<open>(i + 1) * 10\<close>
  leaves its range.
\<close>

function print_rows :: "byte list \<Rightarrow> nat \<Rightarrow> nat \<Rightarrow> ('d, unit) comp" where
  "print_rows bs output_num i =
     (if i < output_num div 10 then
        if 2147483647 < (i + 1) * 10 then fail (Undefined_behaviour ''signed integer overflow'')
        else
          seq (emit (E_printf (int i * 10) ((int i + 1) * 10 - 1))) (\<lambda>_.
          seq (print_values bs output_num i 0) (\<lambda>_.
          seq (emit E_cout_endl) (\<lambda>_.
          print_rows bs output_num (i + 1))))
      else ok ())"
  by pat_completeness auto
termination
  by (relation "measure (\<lambda>(bs, output_num, i). output_num div 10 - i)") auto

declare print_rows.simps [simp del]

text \<open>
  Lines 75-84. \<open>output_num\<close> is once more \<open>std::accumulate\<close> with the \<open>int\<close> 1, converted
  to \<open>size_t\<close> (a negative \<open>int\<close> becomes a value near \<open>2 ^ 64\<close>).
\<close>

definition print_output :: "NDArray \<Rightarrow> ('d, unit) comp" where
  "print_output output =
     (let output_num = unat (scast (accumulate (Shape output) 1) :: 64 word) in
      seq (emit (E_cout_fixed_setprecision 3)) (\<lambda>_.
      print_rows (data output) output_num 0))"

definition inference ::
    "('m, 'g, 'd) world \<Rightarrow> 'g \<Rightarrow> (string \<times> string) list \<Rightarrow> DLDevice \<Rightarrow> ('d, unit) comp" where
  "inference w gmod input_paths dev =
     seq (emit (E_enter ''inference'')) (\<lambda>_.
     seq (call E_get_input_info (get_input_info w gmod) ''get_input_info'') (\<lambda>input_info.
     case input_info of (shape_info, dtype_info) \<Rightarrow>
     seq (load_inputs w shape_info dtype_info dev input_paths (gmod, dtype_map)) (\<lambda>st.
     seq (emit (E_LOG ''Running graph executor...'')) (\<lambda>_.
     seq (call E_run (run w (fst st)) ''run'') (\<lambda>gmod'.
     seq (call (E_get_output 0) (get_output w gmod' 0) ''get_output'') (\<lambda>output.
     seq (emit (E_getenv ''cpp_bench_debug'')) (\<lambda>_.
     if getenv w ''cpp_bench_debug'' = Some ''ON'' then print_output output else ok ())))))))"

section \<open>The benchmark (evaluate, lines 88-128)\<close>

text \<open>
  The two loops that collect the handles: \<open>get_input(i)\<close> for \<open>i < num_inputs\<close>, then
  \<open>get_output(i)\<close> for \<open>i < num_outputs\<close>, each stored at the next position \<open>offs\<close>.
\<close>

fun gather :: "(nat \<Rightarrow> 'd event) \<Rightarrow> (nat \<Rightarrow> NDArray option) \<Rightarrow> string \<Rightarrow> nat list
    \<Rightarrow> ('d, NDArray list) comp" where
  "gather ev getter what [] = ok []"
| "gather ev getter what (i # rest) =
     seq (call (ev i) (getter i) what) (\<lambda>arg.
     seq (gather ev getter what rest) (\<lambda>args.
     ok (arg # args)))"

text \<open>
  The timer returns the bytes of an array of \<open>double\<close>; the program prints the first one
  times 1000. Of the type \<open>double\<close> the model uses the multiplication and the numerals
  only, and assumes no law of its arithmetic.
\<close>

definition evaluate ::
    "('m, 'g, 'd::{times,numeral}) world \<Rightarrow> 'g \<Rightarrow> DLDevice \<Rightarrow> ('d, unit) comp" where
  "evaluate w gmod dev =
     seq (emit (E_enter ''evaluate'')) (\<lambda>_.
     seq (call (E_RPCTimeEvaluator ''run'' (device_type dev) (device_id dev) 10 1 500 '''')
            (RPCTimeEvaluator w gmod ''run'' (device_type dev) (device_id dev) 10 1 500 '''')
            ''runtime.RPCTimeEvaluator'') (\<lambda>time_eval.
     seq (emit E_get_num_inputs) (\<lambda>_.
     let num_inputs = get_num_inputs w gmod in
     seq (emit E_get_num_outputs) (\<lambda>_.
     let num_outputs = get_num_outputs w gmod in
     seq (gather E_get_input (get_input w gmod) ''get_input'' [0..<num_inputs]) (\<lambda>ins.
     seq (gather E_get_output (get_output w gmod) ''get_output'' [0..<num_outputs]) (\<lambda>outs.
     seq (call (E_time_eval (ins @ outs)) (time_eval (ins @ outs)) ''time_eval'') (\<lambda>results.
     case results of
       [] \<Rightarrow> fail (Undefined_behaviour ''read past the end of the results'')
     | r # _ \<Rightarrow> seq (emit (E_cout_double (r * 1000))) (\<lambda>_. emit E_cout_endl))))))))"

section \<open>Dispatch and entry point (lines 130-160)\<close>

definition DeployGraphExecutor ::
    "('m, 'g, 'd::{times,numeral}) world \<Rightarrow> string \<Rightarrow> (string \<times> string) list \<Rightarrow> ('d, unit) comp" where
  "DeployGraphExecutor w module_path input_paths =
     (let dev = \<lparr>device_type = kDLCPU, device_id = 0\<rparr> in
      seq (call (E_LoadFromFile module_path) (LoadFromFile w module_path) ''LoadFromFile'')
        (\<lambda>mod_factory.
      seq (call (E_default dev) (mod_default w mod_factory dev) ''default'') (\<lambda>gmod.
      if input_paths = [] then evaluate w gmod dev
      else inference w gmod input_paths dev)))"

definition main :: "('m, 'g, 'd::{times,numeral}) world \<Rightarrow> string list \<Rightarrow> ('d, int) comp" where
  "main w argv =
     seq (if 2 \<le> length argv then ok () else fail (ICHECK_GE_failed (length argv) 2)) (\<lambda>_.
     let module_path = argv ! 1 in
     seq ([], parse_args (drop 2 argv) []) (\<lambda>input_paths.
     seq (DeployGraphExecutor w module_path input_paths) (\<lambda>_.
     ok 0)))"

section \<open>Reading a trace\<close>

text \<open>
  The functions of the source a trace has entered, the calls of the timing utility in it,
  and the \<open>float\<close> values it has printed, each in order.
\<close>

definition entered :: "'d event list \<Rightarrow> string list" where
  "entered t = concat (map (\<lambda>e. case e of E_enter n \<Rightarrow> [n] | _ \<Rightarrow> []) t)"

definition timer_events :: "'d event list \<Rightarrow> 'd event list" where
  "timer_events t = filter (\<lambda>e. case e of E_RPCTimeEvaluator _ _ _ _ _ _ _ \<Rightarrow> True
                                      | E_time_eval _ \<Rightarrow> True | _ \<Rightarrow> False) t"

definition printed_floats :: "'d event list \<Rightarrow> byte list list" where
  "printed_floats t = concat (map (\<lambda>e. case e of E_cout_float v \<Rightarrow> [v] | _ \<Rightarrow> []) t)"


text \<open>A computation that enters no function of the source.\<close>

definition quiet :: "('d, 'a) comp \<Rightarrow> bool" where
  "quiet m = (entered (fst m) = [])"

text \<open>
  The row \<open>i\<close> of the verbose output in the words of the spec (section 4.4): the range of
  indices \<open>10 i\<close> to \<open>10 i + 9\<close>, the ten values of the row, each followed by a comma, and
  the end of the line. The theorems below compare the loops of the source with it.
\<close>

definition row_events :: "byte list \<Rightarrow> nat \<Rightarrow> 'd event list" where
  "row_events bs i =
     E_printf (int i * 10) (int i * 10 + 9)
     # concat (map (\<lambda>j. [E_cout_float (take 4 (drop (4 * (i * 10 + j)) bs)), E_cout_string '', ''])
                [0..<10])
     @ [E_cout_endl]"

section \<open>A small runtime to run the model on\<close>

text \<open>
  Modelled from the spec: the external runtime of spec section 6, whose code is not part
  of the repository. The executor reports the shapes and element types of its inputs,
  keeps the tensors bound by \<open>set_input\<close>, and has input and output slots; \<open>Empty\<close>
  allocates a tensor of the given shape and type, \<open>CopyFromBytes\<close> copies the bytes
  verbatim (spec 4.3 g), and the timer returns one mean duration. The concrete runs below
  use it; the theorems are proved for every world.
\<close>

record executor =
  input_shapes :: "(string \<times> ShapeTuple) list"
  input_dtypes :: "(string \<times> string) list"
  bound :: "(string \<times> NDArray) list"
  input_slots :: "NDArray list"
  output_slots :: "NDArray list"

definition example_executor :: executor where
  "example_executor =
     \<lparr>input_shapes = [], input_dtypes = [], bound = [], input_slots = [], output_slots = []\<rparr>"

definition slot :: "NDArray list \<Rightarrow> nat \<Rightarrow> NDArray option" where
  "slot xs i = (if i < length xs then Some (xs ! i) else None)"

definition example_world ::
    "(string \<Rightarrow> fs_entry option) \<Rightarrow> (string \<Rightarrow> string option) \<Rightarrow> (string \<Rightarrow> executor option)
       \<Rightarrow> (executor, executor, real) world" where
  "example_world fs env mods =
    \<lparr> files = fs,
      getenv = env,
      LoadFromFile = mods,
      mod_default = (\<lambda>m dev. Some m),
      get_input_info = (\<lambda>g. Some (map_of (input_shapes g), map_of (input_dtypes g))),
      Empty = (\<lambda>shape dtype dev. Some \<lparr>Shape = shape, DataType = dtype, Device = dev, data = []\<rparr>),
      CopyFromBytes = (\<lambda>x buffer n. Some (x\<lparr>data := take n buffer\<rparr>)),
      set_input = (\<lambda>g name x. Some (g\<lparr>bound := AList.update name x (bound g)\<rparr>)),
      run = Some,
      get_output = (\<lambda>g. slot (output_slots g)),
      get_input = (\<lambda>g. slot (input_slots g)),
      get_num_inputs = (\<lambda>g. length (input_slots g)),
      get_num_outputs = (\<lambda>g. length (output_slots g)),
      RPCTimeEvaluator = (\<lambda>g name dt di number repeat min_ms pre. Some (\<lambda>args. Some [1 / 4])) \<rparr>"

section \<open>Basic facts about computations\<close>

lemma seq_Inr: "seq ([], Inr a) f = f a"
  by (simp add: seq_def split: prod.split)

lemma seq_ok: "seq (ok a) f = f a"
  by (simp add: ok_def seq_Inr)

lemma seq_emit: "seq (emit e) f = (e # fst (f ()), snd (f ()))"
  by (simp add: seq_def emit_def split: prod.split)

lemma seq_call:
  "seq (call e r what) f = (case r of None \<Rightarrow> ([e], Inl (Runtime_failed what))
     | Some a \<Rightarrow> (e # fst (f a), snd (f a)))"
  by (simp add: seq_def call_def split: prod.split option.split)

lemma seq_defined:
  "seq (defined r what) f = (case r of None \<Rightarrow> ([], Inl (Undefined_behaviour what)) | Some a \<Rightarrow> f a)"
  by (simp add: seq_def defined_def split: prod.split option.split)

lemma seq_fail: "seq (fail e) f = ([], Inl e)"
  by (simp add: seq_def fail_def)

lemma seq_Map_at:
  "seq (Map_at m k) f = (case m k of None \<Rightarrow> ([], Inl (Map_key_missing k)) | Some v \<Rightarrow> f v)"
  by (simp add: Map_at_def seq_fail seq_ok split: option.split)

lemma seq_check: "seq (if b then ok () else fail e) f = (if b then f () else ([], Inl e))"
  by (simp add: seq_ok seq_fail)

lemma seq_Pair_Inr: "seq (t, Inr a) f = (t @ fst (f a), snd (f a))"
  by (simp add: seq_def split: prod.split)


lemma fst_seq: "fst (seq m f) = fst m @ (case snd m of Inl e \<Rightarrow> [] | Inr a \<Rightarrow> fst (f a))"
  by (cases m) (simp add: seq_def split: sum.split prod.split)



lemmas seq_simps = seq_emit seq_call seq_defined seq_fail seq_ok seq_Map_at seq_check

section \<open>Properties of argument parsing\<close>

lemma find_chr_None: "find_chr c s = None \<longleftrightarrow> c \<notin> set s"
  by (induction s) auto

lemma find_chr_first: "c \<notin> set name \<Longrightarrow> find_chr c (name @ c # path) = Some (length name)"
  by (induction name) auto

lemma takeWhile_first: "c \<notin> set name \<Longrightarrow> takeWhile (\<lambda>x. x \<noteq> c) (name @ c # path) = name"
  by (induction name) auto

lemma dropWhile_first: "c \<notin> set name \<Longrightarrow> dropWhile (\<lambda>x. x \<noteq> c) (name @ c # path) = c # path"
  by (induction name) auto

lemma parse_arg_split: "CHR '':'' \<notin> set name \<Longrightarrow> parse_arg (name @ CHR '':'' # path) = Inr (name, path)"
  by (simp add: parse_arg_def find_chr_first substr_def substr_from_def)

lemma parse_arg_no_colon:
  "CHR '':'' \<notin> set a \<Longrightarrow> parse_arg a = Inl (ICHECK_NE_failed ''input format must be input_name:input'')"
  using find_chr_None [of "CHR '':''" a] by (simp add: parse_arg_def)

lemma parse_arg_cases:
  "parse_arg a = Inl (ICHECK_NE_failed ''input format must be input_name:input'') \<or> (\<exists>p. parse_arg a = Inr p)"
  by (simp add: parse_arg_def split: option.split)

text \<open>An argument with a colon is cut at the first one.\<close>

lemma parse_arg_colon:
  assumes "CHR '':'' \<in> set a"
  shows "parse_arg a = Inr (takeWhile (\<lambda>c. c \<noteq> CHR '':'') a, tl (dropWhile (\<lambda>c. c \<noteq> CHR '':'') a))"
proof -
  let ?n = "takeWhile (\<lambda>c. c \<noteq> CHR '':'') a" and ?r = "dropWhile (\<lambda>c. c \<noteq> CHR '':'') a"
  have a: "a = ?n @ ?r" by simp
  from assms have "?r \<noteq> []" by (simp add: dropWhile_eq_Nil_conv)
  moreover from this have "hd ?r = CHR '':''" using hd_dropWhile [of "\<lambda>c. c \<noteq> CHR '':''" a] by simp
  ultimately have r: "?r = CHR '':'' # tl ?r" by (cases ?r) auto
  have n: "CHR '':'' \<notin> set ?n" using set_takeWhileD by fastforce
  have "parse_arg (?n @ CHR '':'' # tl ?r) = Inr (?n, tl ?r)" using n by (rule parse_arg_split)
  with a r show ?thesis by metis
qed

text \<open>The loop stops at the first argument without a colon, whatever it has built so far.\<close>

lemma parse_args_no_colon:
  "a \<in> set args \<Longrightarrow> CHR '':'' \<notin> set a \<Longrightarrow>
     parse_args args m = Inl (ICHECK_NE_failed ''input format must be input_name:input'')"
proof (induction args arbitrary: m)
  case Nil
  then show ?case by simp
next
  case (Cons x args)
  show ?case
  proof (cases "parse_arg x")
    case (Inl e)
    with parse_arg_cases [of x] show ?thesis by simp
  next
    case (Inr p)
    with Cons.prems parse_arg_no_colon [of x] have "a \<in> set args" by auto
    with Cons.IH Cons.prems(2) Inr show ?thesis by (cases p) simp
  qed
qed

text \<open>
  On well-formed arguments the loop succeeds, and the mapping it builds looks a name up as
  the list of the cut arguments does when read from the last one backwards.
\<close>

lemma parse_args_map_of:
  "\<forall>a\<in>set args. CHR '':'' \<in> set a \<Longrightarrow>
     \<exists>m. parse_args args m0 = Inr m \<and>
         map_of m = map_of (rev (map (\<lambda>a. (takeWhile (\<lambda>c. c \<noteq> CHR '':'') a,
                                            tl (dropWhile (\<lambda>c. c \<noteq> CHR '':'') a))) args) @ m0)"
proof (induction args arbitrary: m0)
  case Nil
  then show ?case by simp
next
  case (Cons a args)
  let ?sp = "\<lambda>a. (takeWhile (\<lambda>c. c \<noteq> CHR '':'') a, tl (dropWhile (\<lambda>c. c \<noteq> CHR '':'') a))"
  from Cons.prems have pa: "parse_arg a = Inr (?sp a)" by (simp add: parse_arg_colon)
  from Cons.prems have "\<forall>a\<in>set args. CHR '':'' \<in> set a" by simp
  from Cons.IH [OF this, of "AList.update (fst (?sp a)) (snd (?sp a)) m0"]
  obtain m where m: "parse_args args (AList.update (fst (?sp a)) (snd (?sp a)) m0) = Inr m"
    "map_of m = map_of (rev (map ?sp args) @ AList.update (fst (?sp a)) (snd (?sp a)) m0)"
    by blast
  have "parse_args (a # args) m0 = Inr m" using pa m(1) by simp
  moreover have "map_of m = map_of (rev (map ?sp (a # args)) @ m0)"
    using m(2) by (simp add: update_conv')
  ultimately show ?case by blast
qed

text \<open>
  Claim C8. An argument after the module path that has no colon makes \<open>main\<close> fail at the
  check of line 154 with an empty trace: no module has been loaded and no file looked at.
  An argument \<open>name:path\<close> whose name has no colon is cut into \<open>(name, path)\<close>, that is, at
  its first colon.
\<close>

theorem main_rejects_missing_colon:
  "(2 \<le> length argv \<and> a \<in> set (drop 2 argv) \<and> CHR '':'' \<notin> set a \<longrightarrow>
      main w argv = ([], Inl (ICHECK_NE_failed ''input format must be input_name:input'')))
   \<and> (CHR '':'' \<notin> set name \<longrightarrow> parse_arg (name @ CHR '':'' # path) = Inr (name, path))"
proof (intro conjI impI)
  assume h: "2 \<le> length argv \<and> a \<in> set (drop 2 argv) \<and> CHR '':'' \<notin> set a"
  then have "parse_args (drop 2 argv) [] =
      Inl (ICHECK_NE_failed ''input format must be input_name:input'')"
    using parse_args_no_colon [of a "drop 2 argv" "[]"] by blast
  with h show "main w argv = ([], Inl (ICHECK_NE_failed ''input format must be input_name:input''))"
    by (simp add: main_def seq_def ok_def)
next
  assume "CHR '':'' \<notin> set name"
  then show "parse_arg (name @ CHR '':'' # path) = Inr (name, path)"
    by (rule parse_arg_split)
qed

theorem main_rejects_missing_colon_witness:
  "2 \<le> length [''prog'', ''model.so'', ''x:x.bin'', ''y.bin''] \<and>
   ''y.bin'' \<in> set (drop 2 [''prog'', ''model.so'', ''x:x.bin'', ''y.bin'']) \<and>
   CHR '':'' \<notin> set ''y.bin'' \<and>
   main (example_world Map.empty Map.empty Map.empty) [''prog'', ''model.so'', ''x:x.bin'', ''y.bin'']
     = ([], Inl (ICHECK_NE_failed ''input format must be input_name:input'')) \<and>
   CHR '':'' \<notin> set ''x'' \<and>
   parse_arg (''x'' @ CHR '':'' # ''a:b'') = Inr (''x'', ''a:b'')"
  using main_rejects_missing_colon [of "[''prog'', ''model.so'', ''x:x.bin'', ''y.bin'']" "''y.bin''"
      "example_world Map.empty Map.empty Map.empty" "''x''" "''a:b''"]
  by simp

text \<open>
  Claim C9. When all arguments are well formed and the last argument that carries the name
  \<open>name\<close> is \<open>name:path\<close> (no argument after it has that name), parsing succeeds and the
  mapping sends \<open>name\<close> to \<open>path\<close>, whatever the earlier arguments with that name said.
\<close>

theorem parse_args_last_wins:
  assumes "\<forall>a\<in>set (xs @ ys). CHR '':'' \<in> set a"
    and "CHR '':'' \<notin> set name"
    and "\<forall>y\<in>set ys. takeWhile (\<lambda>c. c \<noteq> CHR '':'') y \<noteq> name"
  shows "\<exists>m. parse_args (xs @ [name @ CHR '':'' # path] @ ys) [] = Inr m \<and> map_of m name = Some path"
proof -
  let ?sp = "\<lambda>a. (takeWhile (\<lambda>c. c \<noteq> CHR '':'') a, tl (dropWhile (\<lambda>c. c \<noteq> CHR '':'') a))"
  let ?args = "xs @ [name @ CHR '':'' # path] @ ys"
  from assms(1) have "\<forall>a\<in>set ?args. CHR '':'' \<in> set a" by auto
  from parse_args_map_of [OF this, of "[]"]
  obtain m where m: "parse_args ?args [] = Inr m" "map_of m = map_of (rev (map ?sp ?args) @ [])"
    by blast
  have sp: "?sp (name @ CHR '':'' # path) = (name, path)"
    using assms(2) by (simp add: takeWhile_first dropWhile_first)
  have "name \<notin> fst ` set (rev (map ?sp ys))" using assms(3) by auto
  then have "map_of (rev (map ?sp ys)) name = None" by (simp add: map_of_eq_None_iff)
  then have "map_of m name = Some path"
    using m(2) sp by (simp add: map_add_def)
  with m(1) show ?thesis by blast
qed

theorem parse_args_last_wins_witness:
  "CHR '':'' \<notin> set ''x'' \<and>
   takeWhile (\<lambda>c. c \<noteq> CHR '':'') ''y:d.bin'' \<noteq> ''x'' \<and>
   (\<exists>m. parse_args ([''x:a.bin'', ''y:b.bin''] @ [''x'' @ CHR '':'' # ''c.bin''] @ [''y:d.bin'']) [] = Inr m
        \<and> map_of m ''x'' = Some ''c.bin'')"
  using parse_args_last_wins [of "[''x:a.bin'', ''y:b.bin'']" "[''y:d.bin'']" "''x''" "''c.bin''"]
  by simp

text \<open>The same run, computed: the second \<open>x\<close> and the second \<open>y\<close> are the ones kept.\<close>

lemma parse_args_duplicates_run:
  "parse_args [''x:a.bin'', ''y:b.bin'', ''x:c.bin'', ''y:d.bin''] []
     = Inr [(''x'', ''c.bin''), (''y'', ''d.bin'')]"
  by (simp add: parse_arg_def substr_def substr_from_def)

text \<open>
  Claim C10. Parsing succeeds on every list of arguments that all have a colon, wherever
  the colon stands. An argument \<open>:path\<close> gives the entry with the empty name, an argument
  \<open>name:\<close> the entry with the empty path, and \<open>main\<close> goes on to deploy the module with
  that mapping: neither is a usage error.
\<close>

theorem parse_args_accepts_empty_parts:
  "((\<forall>a\<in>set args. CHR '':'' \<in> set a) \<longrightarrow> (\<exists>m. parse_args args [] = Inr m)) \<and>
   parse_args [CHR '':'' # path] [] = Inr [([], path)] \<and>
   (CHR '':'' \<notin> set name \<longrightarrow> parse_args [name @ '':''] [] = Inr [(name, [])]) \<and>
   main w [prog, module_path, CHR '':'' # path]
     = seq (DeployGraphExecutor w module_path [([], path)]) (\<lambda>_. ok 0) \<and>
   (CHR '':'' \<notin> set name \<longrightarrow> main w [prog, module_path, name @ '':'']
     = seq (DeployGraphExecutor w module_path [(name, [])]) (\<lambda>_. ok 0))"
proof (intro conjI impI)
  assume "\<forall>a\<in>set args. CHR '':'' \<in> set a"
  from parse_args_map_of [OF this, of "[]"] show "\<exists>m. parse_args args [] = Inr m" by blast
next
  show e: "parse_args [CHR '':'' # path] [] = Inr [([], path)]"
    by (simp add: parse_arg_def substr_def substr_from_def)
  show "main w [prog, module_path, CHR '':'' # path]
     = seq (DeployGraphExecutor w module_path [([], path)]) (\<lambda>_. ok 0)"
    using e by (simp add: main_def seq_ok seq_Inr del: parse_args.simps)
next
  assume n: "CHR '':'' \<notin> set name"
  show p: "parse_args [name @ '':''] [] = Inr [(name, [])]"
    using parse_arg_split [OF n, of "[]"] by simp
  show "main w [prog, module_path, name @ '':'']
     = seq (DeployGraphExecutor w module_path [(name, [])]) (\<lambda>_. ok 0)"
    using p by (simp add: main_def seq_ok seq_Inr del: parse_args.simps)
qed

theorem parse_args_accepts_empty_parts_witness:
  "list_all (\<lambda>a. CHR '':'' \<in> set a) ['':p.bin'', ''x:'', '':''] \<and>
   (\<exists>m. parse_args ['':p.bin'', ''x:'', '':''] [] = Inr m) \<and>
   parse_args [CHR '':'' # ''p.bin''] [] = Inr [([], ''p.bin'')] \<and>
   CHR '':'' \<notin> set ''x'' \<and>
   parse_args [''x'' @ '':''] [] = Inr [(''x'', [])] \<and>
   main (example_world Map.empty Map.empty Map.empty) [''prog'', ''model.so'', CHR '':'' # ''p.bin'']
     = seq (DeployGraphExecutor (example_world Map.empty Map.empty Map.empty) ''model.so''
              [([], ''p.bin'')]) (\<lambda>_. ok 0) \<and>
   main (example_world Map.empty Map.empty Map.empty) [''prog'', ''model.so'', ''x'' @ '':'']
     = seq (DeployGraphExecutor (example_world Map.empty Map.empty Map.empty) ''model.so''
              [(''x'', [])]) (\<lambda>_. ok 0)"
  using parse_args_accepts_empty_parts [of "['':p.bin'', ''x:'', '':'']" "''p.bin''" "''x''"
      "example_world Map.empty Map.empty Map.empty" "''prog''" "''model.so''"]
  by simp

section \<open>Properties of the loader\<close>

text \<open>
  The body of the loop, with its steps spelled out: where it stops, what it has called by
  then, and what it returns.
\<close>

lemma load_input_unfold:
  "load_input w shape_info dtype_info dev (name, path) (gmod, dm) =
    (if \<not> is_regular_file (files w) path
     then ([E_exists path], Inl (ICHECK_failed (path @ '' is not exist or not a file'')))
     else (case shape_info name of
       None \<Rightarrow> ([E_exists path], Inl (Map_key_missing name))
     | Some shape \<Rightarrow>
     (case dtype_info name of
       None \<Rightarrow> ([E_exists path], Inl (Map_key_missing name))
     | Some dtype_name \<Rightarrow>
     (case input_size shape (fst (unordered_map_index dm dtype_name)) of
       None \<Rightarrow> ([E_exists path], Inl (Undefined_behaviour ''signed integer overflow''))
     | Some n \<Rightarrow>
     (case Empty w shape (fst (unordered_map_index dm dtype_name)) dev of
       None \<Rightarrow> ([E_exists path, E_ifstream path,
                 E_Empty shape (fst (unordered_map_index dm dtype_name)) dev],
                Inl (Runtime_failed ''NDArray::Empty''))
     | Some x \<Rightarrow>
     (if length (read_all (files w) path) \<noteq> n
      then ([E_exists path, E_ifstream path,
            E_Empty shape (fst (unordered_map_index dm dtype_name)) dev, E_read path],
           Inl (ICHECK_EQ_failed (length (read_all (files w) path)) n))
      else (case CopyFromBytes w x (read_all (files w) path) n of
       None \<Rightarrow> ([E_exists path, E_ifstream path,
                 E_Empty shape (fst (unordered_map_index dm dtype_name)) dev, E_read path,
                 E_CopyFromBytes n],
                Inl (Runtime_failed ''CopyFromBytes''))
     | Some x' \<Rightarrow>
     (case set_input w gmod name x' of
       None \<Rightarrow> ([E_exists path, E_ifstream path,
                 E_Empty shape (fst (unordered_map_index dm dtype_name)) dev, E_read path,
                 E_CopyFromBytes n, E_set_input name x'],
                Inl (Runtime_failed ''set_input''))
     | Some gmod' \<Rightarrow> ([E_exists path, E_ifstream path,
                 E_Empty shape (fst (unordered_map_index dm dtype_name)) dev, E_read path,
                 E_CopyFromBytes n, E_set_input name x'],
                Inr (gmod', snd (unordered_map_index dm dtype_name)))))))))))"
  by (simp add: load_input_def seq_simps ok_def split: option.split prod.split)

lemmas table_defs = unordered_map_index_def dtype_map_def zero_DLDataType_def
  kDLInt_def kDLUInt_def kDLFloat_def kDLCPU_def

subsection \<open>The size computed by the source and the expected length\<close>

lemma word_of_int_take_bit_64_32: "(word_of_int (take_bit 64 k) :: 32 word) = word_of_int k"
  by (simp add: word_of_int_eq_iff)

lemma ucast_mult_64_32: "(ucast ((x :: 64 word) * y) :: 32 word) = ucast x * ucast y"
proof -
  have "(ucast (x * y) :: 32 word) = word_of_int (uint (x * y))" by (rule ucast_eq)
  also have "\<dots> = word_of_int (take_bit 64 (uint x * uint y))"
    by (simp only: uint_word_ariths take_bit_eq_mod len_of_numeral_defs) simp
  also have "\<dots> = word_of_int (uint x * uint y)" by (rule word_of_int_take_bit_64_32)
  also have "\<dots> = word_of_int (uint x) * word_of_int (uint y)" by (rule of_int_mult)
  also have "\<dots> = ucast x * ucast y" by (simp only: ucast_eq)
  finally show ?thesis .
qed

lemma ucast_scast_32_64: "(ucast (scast (a :: 32 word) :: 64 word) :: 32 word) = a"
proof -
  have "(ucast (scast a :: 64 word) :: 32 word) = word_of_int (uint (scast a :: 64 word))"
    by (rule ucast_eq)
  also have "\<dots> = word_of_int (uint (word_of_int (sint a) :: 64 word))"
    by (simp only: scast_eq)
  also have "\<dots> = word_of_int (take_bit 64 (sint a))"
    by (simp only: unsigned_of_int) simp
  also have "\<dots> = word_of_int (sint a)" by (rule word_of_int_take_bit_64_32)
  also have "\<dots> = a" by simp
  finally show ?thesis .
qed

lemma sint_of_nat_32: "n < 2 ^ 31 \<Longrightarrow> sint (of_nat n :: 32 word) = int n"
  by (simp add: signed_of_nat signed_take_bit_int_eq_self)

lemma unat_scast_of_nat: 
  assumes n: "n < 2 ^ 31"
  shows "unat (scast (of_nat n :: 32 word) :: 64 word) = n"
proof -
  have "(scast (of_nat n :: 32 word) :: 64 word) = word_of_int (sint (of_nat n :: 32 word))"
    by (rule scast_eq)
  also have "\<dots> = word_of_int (int n)" using n by (simp only: sint_of_nat_32)
  finally have "unat (scast (of_nat n :: 32 word) :: 64 word) = unat (word_of_int (int n) :: 64 word)"
    by simp
  also have "\<dots> = n" using n by (simp add: unat_of_nat take_bit_nat_eq_self)
  finally show ?thesis .
qed

lemma unat_word_of_int_nat: "n < 2 ^ 31 \<Longrightarrow> unat (word_of_int (int n) :: 64 word) = n"
  by (simp add: unat_of_nat take_bit_nat_eq_self)

text \<open>The accumulator holds the product of the dimensions, cut to 32 bits.\<close>

lemma accumulate_eq: "accumulate ds init = init * of_nat (prod_list (map unat ds))"
proof (induction ds arbitrary: init)
  case Nil
  then show ?case by simp
next
  case (Cons d ds)
  have "accumulate (d # ds) init = ucast ((scast init :: 64 word) * d) * of_nat (prod_list (map unat ds))"
    by (simp add: Cons.IH)
  also have "(ucast ((scast init :: 64 word) * d) :: 32 word) = init * ucast d"
    by (simp only: ucast_mult_64_32 ucast_scast_32_64)
  also have "(ucast d :: 32 word) = of_nat (unat d)" by simp
  finally show ?case by (simp add: mult.assoc)
qed

lemma accumulate_exact:
  "prod_list (map unat shape) < 2 ^ 31 \<Longrightarrow>
     sint (accumulate shape 1) = int (prod_list (map unat shape))"
  by (simp add: accumulate_eq sint_of_nat_32)

lemma input_size_exact:
  assumes "8 dvd unat (bits dtype)" and "prod_list (map unat shape) < 2 ^ 31"
    and "expected_length shape dtype < 2 ^ 31"
  shows "input_size shape dtype = Some (expected_length shape dtype)"
proof -
  let ?P = "prod_list (map unat shape)" and ?b = "unat (bits dtype)"
  from assms(1) obtain k where k: "?b = 8 * k" by (auto elim: dvdE)
  then have e: "expected_length shape dtype = ?P * (?b div 8)"
    by (simp add: expected_length_def)
  have u: "uint (bits dtype) div 8 = int (?b div 8)"
    by (simp add: zdiv_int)
  have p: "sint (accumulate shape 1) * (uint (bits dtype) div 8) = int (?P * (?b div 8))"
    using assms(2) by (simp only: accumulate_exact u of_nat_mult)
  have r: "?P * (?b div 8) < 2 ^ 31" using assms(3) e by simp
  then have "int (?P * (?b div 8)) < 2 ^ 31" by (simp del: of_nat_mult)
  moreover have "- (2 ^ 31) \<le> int (?P * (?b div 8))" by (simp del: of_nat_mult)
  moreover have "unat (word_of_int (int (?P * (?b div 8))) :: 64 word) = ?P * (?b div 8)"
    using r by (rule unat_word_of_int_nat)
  ultimately show ?thesis
    unfolding input_size_def Let_def p e by (simp del: of_nat_mult)
qed


lemma load_input_right_length:
  assumes "is_regular_file (files w) path" and "shape_info name = Some shape"
    and "dtype_info name = Some s" and "fst (unordered_map_index dm s) = dtype"
    and "8 dvd unat (bits dtype)" and "prod_list (map unat shape) < 2 ^ 31"
    and "expected_length shape dtype < 2 ^ 31"
    and "length (read_all (files w) path) = expected_length shape dtype"
    and "Empty w shape dtype dev = Some x"
    and "CopyFromBytes w x (read_all (files w) path) (expected_length shape dtype)
           = Some (x\<lparr>data := take (expected_length shape dtype) (read_all (files w) path)\<rparr>)"
    and "set_input w gmod name (x\<lparr>data := read_all (files w) path\<rparr>) = Some gmod'"
  shows "load_input w shape_info dtype_info dev (name, path) (gmod, dm)
           = ([E_exists path, E_ifstream path, E_Empty shape dtype dev, E_read path,
               E_CopyFromBytes (expected_length shape dtype),
               E_set_input name (x\<lparr>data := read_all (files w) path\<rparr>)],
              Inr (gmod', snd (unordered_map_index dm s)))"
  using assms(1-4,8-11) input_size_exact [OF assms(5-7)]
  by (simp add: load_input_unfold split: option.split)

text \<open>
  The scenario of the spec: an input of shape \<open>[1, 3, 2, 2]\<close> and type \<open>float32\<close> loads from
  a file of 48 bytes, and a file of 49 bytes fails the check of the length.
\<close>

lemma load_input_scenario_48:
  "load_input (example_world (map_of [(''x.bin'', Regular (replicate 48 7))]) Map.empty Map.empty)
     (map_of [(''x'', [1, 3, 2, 2])]) (map_of [(''x'', ''float32'')])
     \<lparr>device_type = kDLCPU, device_id = 0\<rparr> (''x'', ''x.bin'') (example_executor, dtype_map) =
    ([E_exists ''x.bin'', E_ifstream ''x.bin'',
      E_Empty [1, 3, 2, 2] \<lparr>code = 2, bits = 32, lanes = 1\<rparr> \<lparr>device_type = 1, device_id = 0\<rparr>,
      E_read ''x.bin'', E_CopyFromBytes 48,
      E_set_input ''x''
        \<lparr>Shape = [1, 3, 2, 2], DataType = \<lparr>code = 2, bits = 32, lanes = 1\<rparr>,
           Device = \<lparr>device_type = 1, device_id = 0\<rparr>, data = replicate 48 7\<rparr>],
     Inr (example_executor\<lparr>bound := [(''x'', \<lparr>Shape = [1, 3, 2, 2],
                DataType = \<lparr>code = 2, bits = 32, lanes = 1\<rparr>,
                Device = \<lparr>device_type = 1, device_id = 0\<rparr>, data = replicate 48 7\<rparr>)]\<rparr>,
          dtype_map))"
  by (simp add: load_input_unfold is_regular_file_def read_all_def input_size_def table_defs
      example_world_def example_executor_def)

lemma load_input_scenario_49:
  "load_input (example_world (map_of [(''x.bin'', Regular (replicate 49 7))]) Map.empty Map.empty)
     (map_of [(''x'', [1, 3, 2, 2])]) (map_of [(''x'', ''float32'')])
     \<lparr>device_type = kDLCPU, device_id = 0\<rparr> (''x'', ''x.bin'') (example_executor, dtype_map) =
    ([E_exists ''x.bin'', E_ifstream ''x.bin'',
      E_Empty [1, 3, 2, 2] \<lparr>code = 2, bits = 32, lanes = 1\<rparr> \<lparr>device_type = 1, device_id = 0\<rparr>,
      E_read ''x.bin''],
     Inl (ICHECK_EQ_failed 49 48))"
  by (simp add: load_input_unfold is_regular_file_def read_all_def input_size_def table_defs
      example_world_def example_executor_def)

subsection \<open>The loop over the inputs\<close>





subsection \<open>The lookup of the element type\<close>

lemma dtype_map_None:
  "s \<notin> {''float32'', ''float16'', ''int8'', ''uint8'', ''int16'', ''uint16''} \<Longrightarrow> map_of dtype_map s = None"
  by (simp add: dtype_map_def)

lemma input_size_zero: "input_size shape \<lparr>code = 0, bits = 0, lanes = 0\<rparr> = Some 0"
  by (simp add: input_size_def)

lemma index_after_index:
  "fst (unordered_map_index (snd (unordered_map_index m k)) s) = fst (unordered_map_index m s)"
  by (auto simp add: unordered_map_index_def map_add_def split: option.splits if_splits)

lemma index_after_lookups:
  "fst (unordered_map_index (fold (\<lambda>k m. snd (unordered_map_index m k)) ks m) s)
     = fst (unordered_map_index m s)"
  by (induction ks arbitrary: m) (simp_all add: index_after_index)

lemma index_unknown:
  "s \<notin> {''float32'', ''float16'', ''int8'', ''uint8'', ''int16'', ''uint16''} \<Longrightarrow>
     fst (unordered_map_index (fold (\<lambda>k m. snd (unordered_map_index m k)) ks dtype_map) s)
       = \<lparr>code = 0, bits = 0, lanes = 0\<rparr>"
  by (simp only: index_after_lookups)
    (simp add: unordered_map_index_def dtype_map_None zero_DLDataType_def)

text \<open>
  Claim C1, as amended. The table gives the six listed type strings the triples of line
  42 to 44: the code of the kind (float, int or unsigned int), the widths 32, 16, 8, 8, 16
  and 16, and one lane; looking one of them up leaves the table as it is. For any other
  string the lookup does not fail: whatever lookups came before, it yields the
  value-initialised triple with code 0, width 0 and 0 lanes, the size computed from it is
  0, and the loader goes on to ask the runtime for a tensor of that type. (The claim as
  stated, that such a string is rejected with an error, does not hold: see the
  counterexample.)
\<close>

theorem unknown_dtype_not_rejected:
  "map (unordered_map_index dtype_map)
      [''float32'', ''float16'', ''int8'', ''uint8'', ''int16'', ''uint16'']
     = [(\<lparr>code = kDLFloat, bits = 32, lanes = 1\<rparr>, dtype_map),
        (\<lparr>code = kDLFloat, bits = 16, lanes = 1\<rparr>, dtype_map),
        (\<lparr>code = kDLInt, bits = 8, lanes = 1\<rparr>, dtype_map),
        (\<lparr>code = kDLUInt, bits = 8, lanes = 1\<rparr>, dtype_map),
        (\<lparr>code = kDLInt, bits = 16, lanes = 1\<rparr>, dtype_map),
        (\<lparr>code = kDLUInt, bits = 16, lanes = 1\<rparr>, dtype_map)] \<and>
   map (\<lambda>k. bits (fst (unordered_map_index dtype_map k)))
      [''float32'', ''float16'', ''int8'', ''uint8'', ''int16'', ''uint16''] = [32, 16, 8, 8, 16, 16] \<and>
   (s \<notin> {''float32'', ''float16'', ''int8'', ''uint8'', ''int16'', ''uint16''} \<longrightarrow>
      fst (unordered_map_index (fold (\<lambda>k m. snd (unordered_map_index m k)) ks dtype_map) s)
        = \<lparr>code = 0, bits = 0, lanes = 0\<rparr> \<and>
      input_size shape \<lparr>code = 0, bits = 0, lanes = 0\<rparr> = Some 0) \<and>
   (s \<notin> {''float32'', ''float16'', ''int8'', ''uint8'', ''int16'', ''uint16''} \<and>
    is_regular_file (files w) path \<and> shape_info name = Some shape \<and> dtype_info name = Some s \<longrightarrow>
      take 3 (fst (load_input w shape_info dtype_info dev (name, path)
                    (gmod, fold (\<lambda>k m. snd (unordered_map_index m k)) ks dtype_map)))
        = [E_exists path, E_ifstream path, E_Empty shape \<lparr>code = 0, bits = 0, lanes = 0\<rparr> dev])"
proof (intro conjI impI)
  show "map (unordered_map_index dtype_map)
      [''float32'', ''float16'', ''int8'', ''uint8'', ''int16'', ''uint16'']
     = [(\<lparr>code = kDLFloat, bits = 32, lanes = 1\<rparr>, dtype_map),
        (\<lparr>code = kDLFloat, bits = 16, lanes = 1\<rparr>, dtype_map),
        (\<lparr>code = kDLInt, bits = 8, lanes = 1\<rparr>, dtype_map),
        (\<lparr>code = kDLUInt, bits = 8, lanes = 1\<rparr>, dtype_map),
        (\<lparr>code = kDLInt, bits = 16, lanes = 1\<rparr>, dtype_map),
        (\<lparr>code = kDLUInt, bits = 16, lanes = 1\<rparr>, dtype_map)]"
    by (simp add: unordered_map_index_def dtype_map_def)
next
  show "map (\<lambda>k. bits (fst (unordered_map_index dtype_map k)))
      [''float32'', ''float16'', ''int8'', ''uint8'', ''int16'', ''uint16''] = [32, 16, 8, 8, 16, 16]"
    by (simp add: unordered_map_index_def dtype_map_def)
next
  assume "s \<notin> {''float32'', ''float16'', ''int8'', ''uint8'', ''int16'', ''uint16''}"
  then show "fst (unordered_map_index (fold (\<lambda>k m. snd (unordered_map_index m k)) ks dtype_map) s)
        = \<lparr>code = 0, bits = 0, lanes = 0\<rparr>"
    by (rule index_unknown)
next
  show "input_size shape \<lparr>code = 0, bits = 0, lanes = 0\<rparr> = Some 0"
    by (rule input_size_zero)
next
  assume h: "s \<notin> {''float32'', ''float16'', ''int8'', ''uint8'', ''int16'', ''uint16''} \<and>
    is_regular_file (files w) path \<and> shape_info name = Some shape \<and> dtype_info name = Some s"
  then have "s \<notin> {''float32'', ''float16'', ''int8'', ''uint8'', ''int16'', ''uint16''}"
    by (rule conjunct1)
  then have z: "fst (unordered_map_index (fold (\<lambda>k m. snd (unordered_map_index m k)) ks dtype_map) s)
        = \<lparr>code = 0, bits = 0, lanes = 0\<rparr>"
    by (rule index_unknown)
  from h have r: "is_regular_file (files w) path" and si: "shape_info name = Some shape"
    and di: "dtype_info name = Some s" by simp_all
  show "take 3 (fst (load_input w shape_info dtype_info dev (name, path)
                    (gmod, fold (\<lambda>k m. snd (unordered_map_index m k)) ks dtype_map)))
        = [E_exists path, E_ifstream path, E_Empty shape \<lparr>code = 0, bits = 0, lanes = 0\<rparr> dev]"
    by (simp add: load_input_unfold r si di z input_size_zero split: option.split)
qed

theorem unknown_dtype_not_rejected_witness:
  "''float64'' \<notin> {''float32'', ''float16'', ''int8'', ''uint8'', ''int16'', ''uint16''} \<and>
   fst (unordered_map_index (fold (\<lambda>k m. snd (unordered_map_index m k)) [''int64'', ''uint8''] dtype_map)
         ''float64'') = \<lparr>code = 0, bits = 0, lanes = 0\<rparr> \<and>
   input_size [2, 3] \<lparr>code = 0, bits = 0, lanes = 0\<rparr> = Some 0 \<and>
   is_regular_file (files (example_world (map_of [(''x.bin'', Regular [1, 2, 3])]) Map.empty Map.empty))
     ''x.bin'' \<and>
   take 3 (fst (load_input (example_world (map_of [(''x.bin'', Regular [1, 2, 3])]) Map.empty Map.empty)
                  (map_of [(''x'', [2, 3])]) (map_of [(''x'', ''float64'')])
                  \<lparr>device_type = kDLCPU, device_id = 0\<rparr> (''x'', ''x.bin'')
                  (example_executor,
                   fold (\<lambda>k m. snd (unordered_map_index m k)) [''int64'', ''uint8''] dtype_map)))
     = [E_exists ''x.bin'', E_ifstream ''x.bin'',
        E_Empty [2, 3] \<lparr>code = 0, bits = 0, lanes = 0\<rparr> \<lparr>device_type = kDLCPU, device_id = 0\<rparr>]"
  using unknown_dtype_not_rejected [of "''float64''" "[''int64'', ''uint8'']" "[2, 3]"
      "example_world (map_of [(''x.bin'', Regular [1, 2, 3])]) Map.empty Map.empty" "''x.bin''"
      "map_of [(''x'', [2, 3])]" "''x''" "map_of [(''x'', ''float64'')]"
      "\<lparr>device_type = kDLCPU, device_id = 0\<rparr>" example_executor]
  by (simp add: is_regular_file_def example_world_def)

text \<open>
  The counterexample to claim C1 as stated: the input \<open>x\<close> is declared \<open>float64\<close>, which is
  not in the table. The loader raises no error; it asks for a tensor of width 0, compares
  the length of the file with 0, and binds the tensor.
\<close>

theorem unknown_dtype_counterexample:
  "''float64'' \<notin> {''float32'', ''float16'', ''int8'', ''uint8'', ''int16'', ''uint16''} \<and>
   load_input (example_world (map_of [(''x.bin'', Regular [])]) Map.empty Map.empty)
     (map_of [(''x'', [2])]) (map_of [(''x'', ''float64'')]) \<lparr>device_type = kDLCPU, device_id = 0\<rparr>
     (''x'', ''x.bin'') (example_executor, dtype_map) =
    ([E_exists ''x.bin'', E_ifstream ''x.bin'',
      E_Empty [2] \<lparr>code = 0, bits = 0, lanes = 0\<rparr> \<lparr>device_type = 1, device_id = 0\<rparr>,
      E_read ''x.bin'', E_CopyFromBytes 0,
      E_set_input ''x''
        \<lparr>Shape = [2], DataType = \<lparr>code = 0, bits = 0, lanes = 0\<rparr>,
           Device = \<lparr>device_type = 1, device_id = 0\<rparr>, data = []\<rparr>],
     Inr (example_executor\<lparr>bound := [(''x'', \<lparr>Shape = [2], DataType = \<lparr>code = 0, bits = 0, lanes = 0\<rparr>,
                Device = \<lparr>device_type = 1, device_id = 0\<rparr>, data = []\<rparr>)]\<rparr>,
          dtype_map @ [(''float64'', \<lparr>code = 0, bits = 0, lanes = 0\<rparr>)]))"
  by (simp add: load_input_unfold is_regular_file_def read_all_def input_size_def table_defs
      example_world_def example_executor_def)

subsection \<open>The order of the checks and the allocation\<close>

text \<open>
  The counterexample to claim C2 as stated: the file has 47 bytes where 48 are expected.
  The check of the length fails, and by then the tensor has been allocated (the call of
  \<open>Empty\<close> is in the trace, before the file is read).
\<close>

theorem length_check_counterexample:
  "load_input (example_world (map_of [(''x.bin'', Regular (replicate 47 0))]) Map.empty Map.empty)
     (map_of [(''x'', [1, 3, 2, 2])]) (map_of [(''x'', ''float32'')])
     \<lparr>device_type = kDLCPU, device_id = 0\<rparr> (''x'', ''x.bin'') (example_executor, dtype_map) =
    ([E_exists ''x.bin'', E_ifstream ''x.bin'',
      E_Empty [1, 3, 2, 2] \<lparr>code = 2, bits = 32, lanes = 1\<rparr> \<lparr>device_type = 1, device_id = 0\<rparr>,
      E_read ''x.bin''],
     Inl (ICHECK_EQ_failed 47 48))"
  by (simp add: load_input_unfold is_regular_file_def read_all_def input_size_def table_defs
      example_world_def example_executor_def)

text \<open>
  Claim C2, as amended. The check of the path comes before everything else: when it fails,
  nothing has been allocated. The check of the length comes after the allocation and
  before the copy: when it fails, the loader has checked the path, opened the stream,
  allocated the tensor and read the file, in this order, and has neither copied into the
  tensor nor bound it.
\<close>

theorem length_check_follows_allocation:
  "(\<not> is_regular_file (files w) path \<longrightarrow>
      load_input w shape_info dtype_info dev (name, path) (gmod, dm)
        = ([E_exists path], Inl (ICHECK_failed (path @ '' is not exist or not a file'')))) \<and>
   (snd (load_input w shape_info dtype_info dev (name, path) (gmod, dm)) = Inl (ICHECK_EQ_failed a b) \<longrightarrow>
      (\<exists>shape dtype x. Empty w shape dtype dev = Some x \<and>
         fst (load_input w shape_info dtype_info dev (name, path) (gmod, dm))
           = [E_exists path, E_ifstream path, E_Empty shape dtype dev, E_read path]) \<and>
      a = length (read_all (files w) path) \<and> a \<noteq> b)"
  by (simp add: load_input_unfold split: option.split)

theorem length_check_follows_allocation_witness:
  "\<not> is_regular_file (files (example_world (map_of [(''x.bin'', Regular (replicate 47 0))]) Map.empty Map.empty)) ''y.bin'' \<and>
   load_input (example_world (map_of [(''x.bin'', Regular (replicate 47 0))]) Map.empty Map.empty)
     (map_of [(''x'', [1, 3, 2, 2])]) (map_of [(''x'', ''float32'')])
     \<lparr>device_type = kDLCPU, device_id = 0\<rparr> (''x'', ''y.bin'') (example_executor, dtype_map)
     = ([E_exists ''y.bin''], Inl (ICHECK_failed (''y.bin'' @ '' is not exist or not a file''))) \<and>
   snd (load_input (example_world (map_of [(''x.bin'', Regular (replicate 47 0))]) Map.empty Map.empty)
     (map_of [(''x'', [1, 3, 2, 2])]) (map_of [(''x'', ''float32'')])
     \<lparr>device_type = kDLCPU, device_id = 0\<rparr> (''x'', ''x.bin'') (example_executor, dtype_map))
     = Inl (ICHECK_EQ_failed 47 48) \<and>
   (\<exists>shape dtype x.
      Empty (example_world (map_of [(''x.bin'', Regular (replicate 47 0))]) Map.empty Map.empty)
        shape dtype \<lparr>device_type = kDLCPU, device_id = 0\<rparr> = Some x \<and>
      fst (load_input (example_world (map_of [(''x.bin'', Regular (replicate 47 0))]) Map.empty Map.empty)
        (map_of [(''x'', [1, 3, 2, 2])]) (map_of [(''x'', ''float32'')])
        \<lparr>device_type = kDLCPU, device_id = 0\<rparr> (''x'', ''x.bin'') (example_executor, dtype_map))
       = [E_exists ''x.bin'', E_ifstream ''x.bin'',
          E_Empty shape dtype \<lparr>device_type = kDLCPU, device_id = 0\<rparr>, E_read ''x.bin'']) \<and>
   47 = length (read_all (files (example_world (map_of [(''x.bin'', Regular (replicate 47 0))])
                   Map.empty Map.empty)) ''x.bin'')"
proof -
  let ?w = "example_world (map_of [(''x.bin'', Regular (replicate 47 0))]) Map.empty Map.empty
      :: (executor, executor, real) world"
  let ?dev = "\<lparr>device_type = kDLCPU, device_id = 0\<rparr>"
  have n: "\<not> is_regular_file (files ?w) ''y.bin''"
    by (simp add: is_regular_file_def example_world_def)
  have f: "snd (load_input ?w (map_of [(''x'', [1, 3, 2, 2])]) (map_of [(''x'', ''float32'')])
      ?dev (''x'', ''x.bin'') (example_executor, dtype_map)) = Inl (ICHECK_EQ_failed 47 48)"
    by (simp add: load_input_unfold is_regular_file_def read_all_def input_size_def table_defs
        example_world_def example_executor_def)
  from n f
    length_check_follows_allocation [of ?w "''y.bin''" "map_of [(''x'', [1, 3, 2, 2])]"
      "map_of [(''x'', ''float32'')]" ?dev "''x''" example_executor dtype_map 47 48]
    length_check_follows_allocation [of ?w "''x.bin''" "map_of [(''x'', [1, 3, 2, 2])]"
      "map_of [(''x'', ''float32'')]" ?dev "''x''" example_executor dtype_map 47 48]
  show ?thesis by blast
qed

subsection \<open>A file of another length\<close>




subsection \<open>Sizes beyond the range of int\<close>

text \<open>
  Beyond the range of \<open>int\<close> the size computed by the source is no longer the expected
  length. For an input of shape \<open>[65536, 65537]\<close> and type \<open>uint8\<close>, 4295032832 bytes are
  expected; the accumulator of \<open>std::accumulate\<close> is an \<open>int\<close> and keeps 65536 of the
  product. A file of 65536 bytes passes the check of the length of the program, which goes
  on to call \<open>CopyFromBytes\<close> with the count 65536 on the tensor it has allocated; what
  becomes of the run then rests with the runtime.
\<close>

lemma load_input_wrapped_size:
  "files w ''x.bin'' = Some (Regular bs) \<Longrightarrow> length bs = 65536 \<Longrightarrow>
   shape_info ''x'' = Some [65536, 65537] \<Longrightarrow> dtype_info ''x'' = Some ''uint8'' \<Longrightarrow>
   Empty w [65536, 65537] \<lparr>code = 1, bits = 8, lanes = 1\<rparr> dev = Some x \<Longrightarrow>
   expected_length [65536, 65537] \<lparr>code = 1, bits = 8, lanes = 1\<rparr> = 4295032832 \<and>
   take 5 (fst (load_input w shape_info dtype_info dev (''x'', ''x.bin'') (gmod, dtype_map)))
     = [E_exists ''x.bin'', E_ifstream ''x.bin'',
        E_Empty [65536, 65537] \<lparr>code = 1, bits = 8, lanes = 1\<rparr> dev,
        E_read ''x.bin'', E_CopyFromBytes 65536] \<and>
   (CopyFromBytes w x bs 65536 = None \<longrightarrow>
      snd (load_input w shape_info dtype_info dev (''x'', ''x.bin'') (gmod, dtype_map))
        = Inl (Runtime_failed ''CopyFromBytes''))"
  by (simp add: load_input_unfold is_regular_file_def read_all_def input_size_def table_defs
      expected_length_def split: option.split)

text \<open>
  Claim C4, at an input where the source departs from it. The input has shape
  \<open>[65536, 65537]\<close> and type \<open>uint8\<close>, and the file has the 4295032832 bytes that are
  expected. The computed size is 65536, and the check of the length fails: no tensor holds
  the bytes of the file.
\<close>

theorem wrapped_size_rejects_right_length:
  "length (replicate 4295032832 (7 :: byte))
     = expected_length [65536, 65537] \<lparr>code = kDLUInt, bits = 8, lanes = 1\<rparr> \<and>
   load_input (example_world (map_of [(''x.bin'', Regular (replicate 4295032832 7))]) Map.empty Map.empty)
     (map_of [(''x'', [65536, 65537])]) (map_of [(''x'', ''uint8'')])
     \<lparr>device_type = kDLCPU, device_id = 0\<rparr> (''x'', ''x.bin'') (example_executor, dtype_map) =
    ([E_exists ''x.bin'', E_ifstream ''x.bin'',
      E_Empty [65536, 65537] \<lparr>code = 1, bits = 8, lanes = 1\<rparr> \<lparr>device_type = 1, device_id = 0\<rparr>,
      E_read ''x.bin''],
     Inl (ICHECK_EQ_failed 4295032832 65536))"
  by (simp add: load_input_unfold is_regular_file_def read_all_def input_size_def table_defs
      expected_length_def example_world_def example_executor_def)

section \<open>Which function a run enters\<close>

lemma entered_Nil: "entered [] = []"
  by (simp add: entered_def)

lemma entered_Cons: "entered (e # t) = (case e of E_enter n \<Rightarrow> [n] | _ \<Rightarrow> []) @ entered t"
  by (simp add: entered_def)

lemma entered_append: "entered (xs @ ys) = entered xs @ entered ys"
  by (simp add: entered_def)

lemma quiet_seq: "quiet m \<Longrightarrow> (\<And>a. quiet (f a)) \<Longrightarrow> quiet (seq m f)"
  by (simp add: quiet_def fst_seq entered_append entered_Nil split: sum.split)

lemma quiet_ok: "quiet (ok a)" by (simp add: quiet_def ok_def entered_def)
lemma quiet_fail: "quiet (fail e)" by (simp add: quiet_def fail_def entered_def)
lemma quiet_defined: "quiet (defined r what)" by (simp add: quiet_def defined_def entered_def)
lemma quiet_Map_at: "quiet (Map_at m k)" by (simp add: Map_at_def quiet_ok quiet_fail split: option.split)
lemma quiet_emit: "entered [e] = [] \<Longrightarrow> quiet (emit e)" by (simp add: quiet_def emit_def)
lemma quiet_call: "entered [e] = [] \<Longrightarrow> quiet (call e r what)" by (simp add: quiet_def call_def)

lemmas quiet_intros = quiet_seq quiet_ok quiet_fail quiet_defined quiet_Map_at quiet_emit quiet_call

lemma quiet_gather: "(\<And>i. entered [ev i] = []) \<Longrightarrow> quiet (gather ev getter what js)"
  by (induction js) (auto intro!: quiet_intros)

lemma quiet_load_input: "quiet (load_input w shape_info dtype_info dev entry st)"
  by (cases entry; cases st)
    (simp add: load_input_unfold quiet_def entered_def split: option.split)

lemma quiet_load_inputs: "quiet (load_inputs w shape_info dtype_info dev entries st)"
  by (induction entries arbitrary: st) (auto intro!: quiet_intros quiet_load_input)

lemma quiet_print_values: "quiet (print_values bs n i j)"
proof (induction bs n i j rule: print_values.induct)
  case (1 bs n i j)
  show ?case using 1
    by (subst print_values.simps) (auto intro!: quiet_intros simp: entered_def)
qed

lemma quiet_print_rows: "quiet (print_rows bs n i)"
proof (induction bs n i rule: print_rows.induct)
  case (1 bs n i)
  show ?case using 1
    by (subst print_rows.simps) (auto intro!: quiet_intros quiet_print_values simp: entered_def)
qed

lemma quiet_print_output: "quiet (print_output output)"
  unfolding print_output_def Let_def
  by (auto intro!: quiet_intros quiet_print_rows simp: entered_def)

lemma entered_seq_enter:
  "quiet m \<Longrightarrow> entered (fst (seq (emit (E_enter n)) (\<lambda>_. m))) = [n]"
  by (simp add: seq_emit quiet_def entered_def)

lemma entered_evaluate: "entered (fst (evaluate w gmod dev)) = [''evaluate'']"
  unfolding evaluate_def Let_def
  by (rule entered_seq_enter)
     (auto intro!: quiet_intros quiet_gather simp: entered_def split: list.split)

lemma entered_inference: "entered (fst (inference w gmod input_paths dev)) = [''inference'']"
  unfolding inference_def
  by (rule entered_seq_enter)
     (auto intro!: quiet_intros quiet_load_inputs quiet_print_output simp: entered_def split: prod.split)

section \<open>Properties of the dispatch\<close>

lemma fst_main:
  "2 \<le> length argv \<Longrightarrow> parse_args (drop 2 argv) [] = Inr input_paths \<Longrightarrow>
     fst (main w argv) = fst (DeployGraphExecutor w (argv ! 1) input_paths)"
  by (simp add: main_def seq_simps seq_Inr fst_seq ok_def split: sum.split)

lemma DeployGraphExecutor_loaded:
  "LoadFromFile w module_path = Some mod_factory \<Longrightarrow>
   mod_default w mod_factory \<lparr>device_type = kDLCPU, device_id = 0\<rparr> = Some gmod \<Longrightarrow>
   DeployGraphExecutor w module_path input_paths =
     seq ([E_LoadFromFile module_path, E_default \<lparr>device_type = kDLCPU, device_id = 0\<rparr>], Inr ())
       (\<lambda>_. if input_paths = [] then evaluate w gmod \<lparr>device_type = kDLCPU, device_id = 0\<rparr>
             else inference w gmod input_paths \<lparr>device_type = kDLCPU, device_id = 0\<rparr>)"
  by (simp add: DeployGraphExecutor_def Let_def seq_simps seq_Pair_Inr)

lemma entered_loaded:
  "LoadFromFile w module_path = Some mod_factory \<Longrightarrow>
   mod_default w mod_factory \<lparr>device_type = kDLCPU, device_id = 0\<rparr> = Some gmod \<Longrightarrow>
   entered (fst (DeployGraphExecutor w module_path input_paths))
     = (if input_paths = [] then [''evaluate''] else [''inference''])"
  by (simp add: DeployGraphExecutor_loaded seq_Pair_Inr entered_Cons entered_evaluate
      entered_inference)

text \<open>When the module does not load, neither path is entered.\<close>

lemma entered_DeployGraphExecutor_cases:
  "entered (fst (DeployGraphExecutor w module_path input_paths)) = [] \<or>
   entered (fst (DeployGraphExecutor w module_path input_paths))
     = (if input_paths = [] then [''evaluate''] else [''inference''])"
proof (cases "LoadFromFile w module_path")
  case None
  then show ?thesis by (simp add: DeployGraphExecutor_def Let_def seq_simps entered_def)
next
  case (Some mod_factory)
  show ?thesis
  proof (cases "mod_default w mod_factory \<lparr>device_type = kDLCPU, device_id = 0\<rparr>")
    case None
    with Some show ?thesis by (simp add: DeployGraphExecutor_def Let_def seq_simps entered_def)
  next
    case (Some gmod)
    with \<open>LoadFromFile w module_path = Some mod_factory\<close> show ?thesis
      by (simp add: entered_loaded)
  qed
qed

text \<open>
  The two ways in which \<open>DeployGraphExecutor\<close> stops before the choice, and what \<open>main\<close>
  does once it has parsed its arguments.
\<close>

lemma DeployGraphExecutor_not_loaded:
  "LoadFromFile w module_path = None \<Longrightarrow>
   DeployGraphExecutor w module_path input_paths
     = ([E_LoadFromFile module_path], Inl (Runtime_failed ''LoadFromFile''))"
  by (simp add: DeployGraphExecutor_def Let_def seq_simps)

lemma DeployGraphExecutor_no_executor:
  "LoadFromFile w module_path = Some mod_factory \<Longrightarrow>
   mod_default w mod_factory \<lparr>device_type = kDLCPU, device_id = 0\<rparr> = None \<Longrightarrow>
   DeployGraphExecutor w module_path input_paths
     = ([E_LoadFromFile module_path, E_default \<lparr>device_type = kDLCPU, device_id = 0\<rparr>],
        Inl (Runtime_failed ''default''))"
  by (simp add: DeployGraphExecutor_def Let_def seq_simps)

lemma main_parsed:
  "2 \<le> length argv \<Longrightarrow> parse_args (drop 2 argv) [] = Inr input_paths \<Longrightarrow>
     main w argv = seq (DeployGraphExecutor w (argv ! 1) input_paths) (\<lambda>_. ok 0)"
  by (simp add: main_def seq_simps seq_Inr)

text \<open>
  Claim C5. Once the module is loaded and the executor created, \<open>DeployGraphExecutor\<close>
  with an empty mapping is the run of \<open>evaluate\<close> on that executor: its calls are the two
  calls that load, followed by those of \<open>evaluate\<close>, and its outcome is that of \<open>evaluate\<close>.
  With a mapping that is not empty it is in the same way the run of \<open>inference\<close> on that
  executor and that mapping. The run of \<open>evaluate\<close> enters \<open>evaluate\<close> and no other function,
  that of \<open>inference\<close> enters \<open>inference\<close> and no other. When the module does not load or the
  executor is not created, the run stops there and calls neither. So in no run at all does
  an empty mapping lead into \<open>inference\<close> or a non-empty one into \<open>evaluate\<close>. The run of
  \<open>main\<close> is that of \<open>DeployGraphExecutor\<close> on the mapping it has parsed.
\<close>

theorem dispatch_by_input_paths:
  "(LoadFromFile w module_path = Some mod_factory \<and>
    mod_default w mod_factory \<lparr>device_type = kDLCPU, device_id = 0\<rparr> = Some gmod \<longrightarrow>
      (input_paths = [] \<longrightarrow>
         DeployGraphExecutor w module_path input_paths
           = ([E_LoadFromFile module_path, E_default \<lparr>device_type = kDLCPU, device_id = 0\<rparr>]
                @ fst (evaluate w gmod \<lparr>device_type = kDLCPU, device_id = 0\<rparr>),
              snd (evaluate w gmod \<lparr>device_type = kDLCPU, device_id = 0\<rparr>))) \<and>
      (input_paths \<noteq> [] \<longrightarrow>
         DeployGraphExecutor w module_path input_paths
           = ([E_LoadFromFile module_path, E_default \<lparr>device_type = kDLCPU, device_id = 0\<rparr>]
                @ fst (inference w gmod input_paths \<lparr>device_type = kDLCPU, device_id = 0\<rparr>),
              snd (inference w gmod input_paths \<lparr>device_type = kDLCPU, device_id = 0\<rparr>))) \<and>
      entered (fst (DeployGraphExecutor w module_path input_paths))
        = (if input_paths = [] then [''evaluate''] else [''inference''])) \<and>
   (LoadFromFile w module_path = None \<longrightarrow>
      DeployGraphExecutor w module_path input_paths
        = ([E_LoadFromFile module_path], Inl (Runtime_failed ''LoadFromFile''))) \<and>
   (LoadFromFile w module_path = Some mod_factory \<and>
    mod_default w mod_factory \<lparr>device_type = kDLCPU, device_id = 0\<rparr> = None \<longrightarrow>
      DeployGraphExecutor w module_path input_paths
        = ([E_LoadFromFile module_path, E_default \<lparr>device_type = kDLCPU, device_id = 0\<rparr>],
           Inl (Runtime_failed ''default''))) \<and>
   entered (fst (evaluate w gmod dev)) = [''evaluate''] \<and>
   entered (fst (inference w gmod input_paths dev)) = [''inference''] \<and>
   (input_paths = [] \<longrightarrow>
      ''inference'' \<notin> set (entered (fst (DeployGraphExecutor w module_path input_paths)))) \<and>
   (input_paths \<noteq> [] \<longrightarrow>
      ''evaluate'' \<notin> set (entered (fst (DeployGraphExecutor w module_path input_paths)))) \<and>
   (2 \<le> length argv \<and> parse_args (drop 2 argv) [] = Inr input_paths \<longrightarrow>
      main w argv = seq (DeployGraphExecutor w (argv ! 1) input_paths) (\<lambda>_. ok 0) \<and>
      fst (main w argv) = fst (DeployGraphExecutor w (argv ! 1) input_paths))"
proof (intro conjI impI)
  assume "LoadFromFile w module_path = Some mod_factory \<and>
    mod_default w mod_factory \<lparr>device_type = kDLCPU, device_id = 0\<rparr> = Some gmod"
    and "input_paths = []"
  then show "DeployGraphExecutor w module_path input_paths
           = ([E_LoadFromFile module_path, E_default \<lparr>device_type = kDLCPU, device_id = 0\<rparr>]
                @ fst (evaluate w gmod \<lparr>device_type = kDLCPU, device_id = 0\<rparr>),
              snd (evaluate w gmod \<lparr>device_type = kDLCPU, device_id = 0\<rparr>))"
    by (simp add: DeployGraphExecutor_loaded seq_Pair_Inr)
next
  assume "LoadFromFile w module_path = Some mod_factory \<and>
    mod_default w mod_factory \<lparr>device_type = kDLCPU, device_id = 0\<rparr> = Some gmod"
    and "input_paths \<noteq> []"
  then show "DeployGraphExecutor w module_path input_paths
           = ([E_LoadFromFile module_path, E_default \<lparr>device_type = kDLCPU, device_id = 0\<rparr>]
                @ fst (inference w gmod input_paths \<lparr>device_type = kDLCPU, device_id = 0\<rparr>),
              snd (inference w gmod input_paths \<lparr>device_type = kDLCPU, device_id = 0\<rparr>))"
    by (simp add: DeployGraphExecutor_loaded seq_Pair_Inr)
next
  assume "LoadFromFile w module_path = Some mod_factory \<and>
    mod_default w mod_factory \<lparr>device_type = kDLCPU, device_id = 0\<rparr> = Some gmod"
  then show "entered (fst (DeployGraphExecutor w module_path input_paths))
        = (if input_paths = [] then [''evaluate''] else [''inference''])"
    by (simp only: entered_loaded)
next
  assume "LoadFromFile w module_path = None"
  then show "DeployGraphExecutor w module_path input_paths
        = ([E_LoadFromFile module_path], Inl (Runtime_failed ''LoadFromFile''))"
    by (rule DeployGraphExecutor_not_loaded)
next
  assume "LoadFromFile w module_path = Some mod_factory \<and>
    mod_default w mod_factory \<lparr>device_type = kDLCPU, device_id = 0\<rparr> = None"
  then show "DeployGraphExecutor w module_path input_paths
        = ([E_LoadFromFile module_path, E_default \<lparr>device_type = kDLCPU, device_id = 0\<rparr>],
           Inl (Runtime_failed ''default''))"
    by (simp add: DeployGraphExecutor_no_executor)
next
  show "entered (fst (evaluate w gmod dev)) = [''evaluate'']"
    by (rule entered_evaluate)
next
  show "entered (fst (inference w gmod input_paths dev)) = [''inference'']"
    by (rule entered_inference)
next
  assume "input_paths = []"
  with entered_DeployGraphExecutor_cases [of w module_path input_paths]
  show "''inference'' \<notin> set (entered (fst (DeployGraphExecutor w module_path input_paths)))"
    by auto
next
  assume "input_paths \<noteq> []"
  with entered_DeployGraphExecutor_cases [of w module_path input_paths]
  show "''evaluate'' \<notin> set (entered (fst (DeployGraphExecutor w module_path input_paths)))"
    by auto
next
  assume "2 \<le> length argv \<and> parse_args (drop 2 argv) [] = Inr input_paths"
  then show "main w argv = seq (DeployGraphExecutor w (argv ! 1) input_paths) (\<lambda>_. ok 0)"
    by (simp add: main_parsed)
next
  assume "2 \<le> length argv \<and> parse_args (drop 2 argv) [] = Inr input_paths"
  then show "fst (main w argv) = fst (DeployGraphExecutor w (argv ! 1) input_paths)"
    by (simp add: fst_main)
qed

theorem dispatch_by_input_paths_witness:
  "LoadFromFile (example_world Map.empty Map.empty (map_of [(''model.so'', example_executor)]))
     ''model.so'' = Some example_executor \<and>
   DeployGraphExecutor
     (example_world Map.empty Map.empty (map_of [(''model.so'', example_executor)])) ''model.so'' []
     = ([E_LoadFromFile ''model.so'', E_default \<lparr>device_type = kDLCPU, device_id = 0\<rparr>]
          @ fst (evaluate (example_world Map.empty Map.empty (map_of [(''model.so'', example_executor)]))
                   example_executor \<lparr>device_type = kDLCPU, device_id = 0\<rparr>),
        snd (evaluate (example_world Map.empty Map.empty (map_of [(''model.so'', example_executor)]))
                   example_executor \<lparr>device_type = kDLCPU, device_id = 0\<rparr>)) \<and>
   entered (fst (DeployGraphExecutor
     (example_world Map.empty Map.empty (map_of [(''model.so'', example_executor)])) ''model.so'' []))
     = [''evaluate''] \<and>
   ''inference'' \<notin> set (entered (fst (DeployGraphExecutor
     (example_world Map.empty Map.empty (map_of [(''model.so'', example_executor)])) ''model.so'' []))) \<and>
   DeployGraphExecutor
     (example_world Map.empty Map.empty (map_of [(''model.so'', example_executor)])) ''model.so''
     [(''x'', ''x.bin'')]
     = ([E_LoadFromFile ''model.so'', E_default \<lparr>device_type = kDLCPU, device_id = 0\<rparr>]
          @ fst (inference (example_world Map.empty Map.empty (map_of [(''model.so'', example_executor)]))
                   example_executor [(''x'', ''x.bin'')] \<lparr>device_type = kDLCPU, device_id = 0\<rparr>),
        snd (inference (example_world Map.empty Map.empty (map_of [(''model.so'', example_executor)]))
                   example_executor [(''x'', ''x.bin'')] \<lparr>device_type = kDLCPU, device_id = 0\<rparr>)) \<and>
   entered (fst (DeployGraphExecutor
     (example_world Map.empty Map.empty (map_of [(''model.so'', example_executor)])) ''model.so''
     [(''x'', ''x.bin'')])) = [''inference''] \<and>
   ''evaluate'' \<notin> set (entered (fst (DeployGraphExecutor
     (example_world Map.empty Map.empty (map_of [(''model.so'', example_executor)])) ''model.so''
     [(''x'', ''x.bin'')]))) \<and>
   LoadFromFile (example_world Map.empty Map.empty (map_of [(''model.so'', example_executor)]))
     ''other.so'' = None \<and>
   DeployGraphExecutor
     (example_world Map.empty Map.empty (map_of [(''model.so'', example_executor)])) ''other.so''
     [(''x'', ''x.bin'')]
     = ([E_LoadFromFile ''other.so''], Inl (Runtime_failed ''LoadFromFile'')) \<and>
   main (example_world Map.empty Map.empty (map_of [(''model.so'', example_executor)]))
          [''prog'', ''model.so'', ''x:x.bin'']
     = seq (DeployGraphExecutor
         (example_world Map.empty Map.empty (map_of [(''model.so'', example_executor)]))
         ([''prog'', ''model.so'', ''x:x.bin''] ! 1) [(''x'', ''x.bin'')]) (\<lambda>_. ok 0) \<and>
   fst (main (example_world Map.empty Map.empty (map_of [(''model.so'', example_executor)]))
          [''prog'', ''model.so'', ''x:x.bin''])
     = fst (DeployGraphExecutor
         (example_world Map.empty Map.empty (map_of [(''model.so'', example_executor)]))
         ([''prog'', ''model.so'', ''x:x.bin''] ! 1) [(''x'', ''x.bin'')])"
proof -
  let ?w = "example_world Map.empty Map.empty (map_of [(''model.so'', example_executor)])
      :: (executor, executor, real) world"
  let ?dev = "\<lparr>device_type = kDLCPU, device_id = 0\<rparr>"
  have l: "LoadFromFile ?w ''model.so'' = Some example_executor"
    and d: "mod_default ?w example_executor ?dev = Some example_executor"
    and n: "LoadFromFile ?w ''other.so'' = None"
    by (simp_all add: example_world_def)
  have p: "parse_args (drop 2 [''prog'', ''model.so'', ''x:x.bin'']) [] = Inr [(''x'', ''x.bin'')]"
    by (simp add: parse_arg_def substr_def substr_from_def)
  have a: "(2 :: nat) \<le> length [''prog'', ''model.so'', ''x:x.bin'']" by simp
  have ne: "[(''x'', ''x.bin'')] \<noteq> ([] :: (string \<times> string) list)" by simp
  have e: "(if ([] :: (string \<times> string) list) = [] then [''evaluate''] else [''inference''])
      = [''evaluate'']"
    and i: "(if [(''x'', ''x.bin'')] = ([] :: (string \<times> string) list) then [''evaluate'']
             else [''inference'']) = [''inference'']"
    by simp_all
  note t1 = dispatch_by_input_paths [of ?w "''model.so''" example_executor example_executor "[]"
      ?dev "[''prog'', ''model.so'']", unfolded e]
  note t2 = dispatch_by_input_paths [of ?w "''model.so''" example_executor example_executor
      "[(''x'', ''x.bin'')]" ?dev "[''prog'', ''model.so'', ''x:x.bin'']", unfolded i]
  note t3 = dispatch_by_input_paths [of ?w "''other.so''" example_executor example_executor
      "[(''x'', ''x.bin'')]" ?dev "[''prog'', ''model.so'', ''x:x.bin'']"]
  from l d n p a ne t1 t2 t3 show ?thesis by blast
qed

section \<open>Properties of the benchmark\<close>

lemma gather_Some:
  "map getter js = map Some xs \<Longrightarrow> gather ev getter what js = (map ev js, Inr xs)"
proof (induction js arbitrary: xs)
  case Nil
  then show ?case by (simp add: ok_def)
next
  case (Cons j js)
  then obtain y ys where xs: "xs = y # ys" by (cases xs) auto
  with Cons.prems have "getter j = Some y" and "map getter js = map Some ys" by simp_all
  with Cons.IH [of ys] xs show ?case by (simp add: seq_simps seq_Pair_Inr ok_def)
qed

lemma evaluate_trace:
  assumes "RPCTimeEvaluator w gmod ''run'' (device_type dev) (device_id dev) 10 1 500 '''' = Some time_eval"
    and "map (get_input w gmod) [0..<get_num_inputs w gmod] = map Some ins"
    and "map (get_output w gmod) [0..<get_num_outputs w gmod] = map Some outs"
    and "time_eval (ins @ outs) = Some (r # rs)"
  shows "evaluate w gmod dev =
    ([E_enter ''evaluate'',
      E_RPCTimeEvaluator ''run'' (device_type dev) (device_id dev) 10 1 500 '''',
      E_get_num_inputs, E_get_num_outputs]
     @ map E_get_input [0..<get_num_inputs w gmod]
     @ map E_get_output [0..<get_num_outputs w gmod]
     @ [E_time_eval (ins @ outs), E_cout_double (r * 1000), E_cout_endl],
     Inr ())"
  using assms(1,4)
  by (simp add: evaluate_def Let_def seq_simps seq_Pair_Inr emit_def
      gather_Some [OF assms(2)] gather_Some [OF assms(3)])

lemma timer_events_append: "timer_events (xs @ ys) = timer_events xs @ timer_events ys"
  by (simp add: timer_events_def)

lemma timer_events_get_input: "timer_events (map E_get_input js) = []"
  by (induction js) (simp_all add: timer_events_def)

lemma timer_events_get_output: "timer_events (map E_get_output js) = []"
  by (induction js) (simp_all add: timer_events_def)

text \<open>
  Claim C6. With no Named Input, a module that loads, handles for every input and output
  slot, and a timer that returns its results, the run is: load the module, create the
  executor on the CPU device 0, enter \<open>evaluate\<close>, obtain the timer for the function
  \<open>run\<close> with the constants 10, 1 and 500 and no preprocessing function, read the two
  counts, fetch the handle of every input slot and then of every output slot, call the
  timer once on the inputs followed by the outputs, and print the first result times 1000.
  The timer is obtained once and called once.
\<close>

theorem benchmark_protocol:
  assumes "LoadFromFile w module_path = Some mod_factory"
    and "mod_default w mod_factory \<lparr>device_type = kDLCPU, device_id = 0\<rparr> = Some gmod"
    and "RPCTimeEvaluator w gmod ''run'' kDLCPU 0 10 1 500 '''' = Some time_eval"
    and "map (get_input w gmod) [0..<get_num_inputs w gmod] = map Some ins"
    and "map (get_output w gmod) [0..<get_num_outputs w gmod] = map Some outs"
    and "time_eval (ins @ outs) = Some (r # rs)"
  shows "DeployGraphExecutor w module_path [] =
      ([E_LoadFromFile module_path, E_default \<lparr>device_type = kDLCPU, device_id = 0\<rparr>,
        E_enter ''evaluate'', E_RPCTimeEvaluator ''run'' kDLCPU 0 10 1 500 '''',
        E_get_num_inputs, E_get_num_outputs]
       @ map E_get_input [0..<get_num_inputs w gmod]
       @ map E_get_output [0..<get_num_outputs w gmod]
       @ [E_time_eval (ins @ outs), E_cout_double (r * 1000), E_cout_endl],
       Inr ()) \<and>
    timer_events (fst (DeployGraphExecutor w module_path []))
      = [E_RPCTimeEvaluator ''run'' kDLCPU 0 10 1 500 '''', E_time_eval (ins @ outs)]"
proof -
  let ?dev = "\<lparr>device_type = kDLCPU, device_id = 0\<rparr>"
  have e: "evaluate w gmod ?dev =
    ([E_enter ''evaluate'', E_RPCTimeEvaluator ''run'' kDLCPU 0 10 1 500 '''',
      E_get_num_inputs, E_get_num_outputs]
     @ map E_get_input [0..<get_num_inputs w gmod]
     @ map E_get_output [0..<get_num_outputs w gmod]
     @ [E_time_eval (ins @ outs), E_cout_double (r * 1000), E_cout_endl],
     Inr ())"
    using evaluate_trace [of w gmod ?dev time_eval ins outs r rs] assms(3-6) by simp
  have d: "DeployGraphExecutor w module_path [] =
      ([E_LoadFromFile module_path, E_default ?dev,
        E_enter ''evaluate'', E_RPCTimeEvaluator ''run'' kDLCPU 0 10 1 500 '''',
        E_get_num_inputs, E_get_num_outputs]
       @ map E_get_input [0..<get_num_inputs w gmod]
       @ map E_get_output [0..<get_num_outputs w gmod]
       @ [E_time_eval (ins @ outs), E_cout_double (r * 1000), E_cout_endl],
       Inr ())"
    by (simp add: DeployGraphExecutor_loaded [OF assms(1,2)] seq_Pair_Inr e)
  have "timer_events (fst (DeployGraphExecutor w module_path []))
      = [E_RPCTimeEvaluator ''run'' kDLCPU 0 10 1 500 '''', E_time_eval (ins @ outs)]"
    by (simp only: d fst_conv timer_events_append timer_events_get_input timer_events_get_output)
      (simp add: timer_events_def)
  with d show ?thesis by (rule conjI)
qed

theorem benchmark_protocol_witness:
  "DeployGraphExecutor
     (example_world Map.empty Map.empty
        (map_of [(''model.so'',
           example_executor\<lparr>input_slots := [\<lparr>Shape = [2], DataType = zero_DLDataType,
                                                 Device = \<lparr>device_type = kDLCPU, device_id = 0\<rparr>,
                                                 data = [1, 2]\<rparr>],
                                output_slots := [\<lparr>Shape = [1], DataType = zero_DLDataType,
                                                  Device = \<lparr>device_type = kDLCPU, device_id = 0\<rparr>,
                                                  data = [3]\<rparr>]\<rparr>)]))
     ''model.so'' [] =
      ([E_LoadFromFile ''model.so'', E_default \<lparr>device_type = kDLCPU, device_id = 0\<rparr>,
        E_enter ''evaluate'', E_RPCTimeEvaluator ''run'' kDLCPU 0 10 1 500 '''',
        E_get_num_inputs, E_get_num_outputs, E_get_input 0, E_get_output 0,
        E_time_eval [\<lparr>Shape = [2], DataType = zero_DLDataType,
                       Device = \<lparr>device_type = kDLCPU, device_id = 0\<rparr>, data = [1, 2]\<rparr>,
                     \<lparr>Shape = [1], DataType = zero_DLDataType,
                       Device = \<lparr>device_type = kDLCPU, device_id = 0\<rparr>, data = [3]\<rparr>],
        E_cout_double 250, E_cout_endl],
       Inr ())"
proof -
  let ?a = "\<lparr>Shape = [2], DataType = zero_DLDataType,
             Device = \<lparr>device_type = kDLCPU, device_id = 0\<rparr>, data = [1, 2]\<rparr>"
  let ?b = "\<lparr>Shape = [1], DataType = zero_DLDataType,
             Device = \<lparr>device_type = kDLCPU, device_id = 0\<rparr>, data = [3]\<rparr>"
  let ?g = "example_executor\<lparr>input_slots := [?a], output_slots := [?b]\<rparr>"
  let ?w = "example_world Map.empty Map.empty (map_of [(''model.so'', ?g)])
      :: (executor, executor, real) world"
  have "LoadFromFile ?w ''model.so'' = Some ?g"
    and "mod_default ?w ?g \<lparr>device_type = kDLCPU, device_id = 0\<rparr> = Some ?g"
    and "RPCTimeEvaluator ?w ?g ''run'' kDLCPU 0 10 1 500 '''' = Some (\<lambda>args. Some [1 / 4])"
    and "map (get_input ?w ?g) [0..<get_num_inputs ?w ?g] = map Some [?a]"
    and "map (get_output ?w ?g) [0..<get_num_outputs ?w ?g] = map Some [?b]"
    and "(\<lambda>args. Some [1 / 4 :: real]) ([?a] @ [?b]) = Some (1 / 4 # [])"
    by (simp_all add: example_world_def example_executor_def slot_def)
  from benchmark_protocol [OF this]
  show ?thesis by (simp add: example_world_def example_executor_def)
qed

section \<open>Properties of the verbose output\<close>

lemma inference_trace:
  assumes "get_input_info w gmod = Some (shape_info, dtype_info)"
    and "load_inputs w shape_info dtype_info dev input_paths (gmod, dtype_map) = (t, Inr (gmod1, dm))"
    and "run w gmod1 = Some gmod2" and "get_output w gmod2 0 = Some output"
  shows "inference w gmod input_paths dev =
    seq ([E_enter ''inference'', E_get_input_info] @ t
         @ [E_LOG ''Running graph executor...'', E_run, E_get_output 0, E_getenv ''cpp_bench_debug''],
         Inr ())
      (\<lambda>_. if getenv w ''cpp_bench_debug'' = Some ''ON'' then print_output output else ok ())"
  using assms by (simp add: inference_def seq_simps seq_Pair_Inr)

text \<open>
  Within the range of \<open>int\<close> the loops print what the spec says: for an output of \<open>N\<close>
  elements, the rows 0 to \<open>N div 10 - 1\<close>, each with its ten values, and so the first
  \<open>10 * (N div 10)\<close> elements and none of the trailing \<open>N mod 10\<close>.
\<close>

lemma print_values_full_aux:
  assumes "i * 10 + 10 \<le> n" and "4 * (i * 10 + 10) \<le> length bs"
  shows "10 - j = k \<Longrightarrow> j \<le> 10 \<Longrightarrow> (print_values bs n i j :: ('d, unit) comp) =
     (concat (map (\<lambda>j. [E_cout_float (take 4 (drop (4 * (i * 10 + j)) bs)), E_cout_string '', ''])
                [j..<10]), Inr ())"
proof (induction k arbitrary: j)
  case 0
  then have "j = 10" by simp
  then show ?case by (subst print_values.simps) (simp add: ok_def)
next
  case (Suc k)
  then have j: "j < 10" by simp
  with assms have f: "float_at bs (i * 10 + j) = Some (take 4 (drop (4 * (i * 10 + j)) bs))"
    by (simp add: float_at_def)
  from j assms have c: "j < 10 \<and> i * 10 + j < n" by simp
  from Suc.prems j have "10 - (j + 1) = k" and "j + 1 \<le> 10" by simp_all
  then have IH: "(print_values bs n i (j + 1) :: ('d, unit) comp) =
     (concat (map (\<lambda>j. [E_cout_float (take 4 (drop (4 * (i * 10 + j)) bs)), E_cout_string '', ''])
                [j + 1..<10]), Inr ())"
    by (rule Suc.IH)
  have u: "[j..<10] = j # [j + 1..<10]" using j by (simp add: upt_conv_Cons)
  show ?case
    by (subst print_values.simps) (simp only: c if_True f seq_simps option.case IH u, simp)
qed

lemma print_values_full:
  assumes "i * 10 + 10 \<le> n" and "4 * (i * 10 + 10) \<le> length bs"
  shows "print_values bs n i 0 =
     (concat (map (\<lambda>j. [E_cout_float (take 4 (drop (4 * (i * 10 + j)) bs)), E_cout_string '', ''])
                [0..<10]), Inr ())"
  using print_values_full_aux [OF assms, of 0 10] by simp

lemma print_rows_full_aux:
  assumes "n div 10 \<le> 214748364" and "4 * (n div 10 * 10) \<le> length bs"
  shows "n div 10 - i = k \<Longrightarrow> i \<le> n div 10 \<Longrightarrow>
     (print_rows bs n i :: ('d, unit) comp) = (concat (map (row_events bs) [i..<n div 10]), Inr ())"
proof (induction k arbitrary: i)
  case 0
  then have "\<not> i < n div 10" by simp
  then show ?case by (subst print_rows.simps) (simp add: ok_def)
next
  case (Suc k)
  then have i: "i < n div 10" by simp
  then have o: "\<not> 2147483647 < (i + 1) * 10" using assms(1) by simp
  from i have "(i + 1) * 10 \<le> n div 10 * 10" by simp
  then have b: "i * 10 + 10 \<le> n" and l: "4 * (i * 10 + 10) \<le> length bs"
    using assms(2) by simp_all
  have pv: "(print_values bs n i 0 :: ('d, unit) comp) =
     (concat (map (\<lambda>j. [E_cout_float (take 4 (drop (4 * (i * 10 + j)) bs)), E_cout_string '', ''])
                [0..<10]), Inr ())"
    using b l by (rule print_values_full)
  from Suc.prems i have "n div 10 - (i + 1) = k" and "i + 1 \<le> n div 10" by simp_all
  then have IH: "(print_rows bs n (i + 1) :: ('d, unit) comp) = (concat (map (row_events bs) [i + 1..<n div 10]), Inr ())"
    by (rule Suc.IH)
  have u: "[i..<n div 10] = i # [i + 1..<n div 10]" using i by (simp add: upt_conv_Cons)
  show ?case using i o IH
    by (subst print_rows.simps) (simp add: seq_simps seq_Pair_Inr pv u row_events_def del: upt_Suc)
qed

lemma print_rows_full:
  assumes "n div 10 \<le> 214748364" and "4 * (n div 10 * 10) \<le> length bs"
  shows "print_rows bs n 0 = (concat (map (row_events bs) [0..<n div 10]), Inr ())"
  using print_rows_full_aux [OF assms, of 0 "n div 10"] by simp

lemma unat_output_num:
  "prod_list (map unat shape) < 2 ^ 31 \<Longrightarrow>
     unat (scast (accumulate shape 1) :: 64 word) = prod_list (map unat shape)"
  by (simp add: accumulate_eq unat_scast_of_nat)

lemma print_output_in_range:
  assumes "prod_list (map unat (Shape output)) < 2 ^ 31"
    and "4 * (prod_list (map unat (Shape output)) div 10 * 10) \<le> length (data output)"
  shows "(print_output output :: ('d, unit) comp) =
     (E_cout_fixed_setprecision 3
        # concat (map (row_events (data output)) [0..<prod_list (map unat (Shape output)) div 10]),
      Inr ())"
proof -
  let ?n = "prod_list (map unat (Shape output))"
  from assms(1) have "?n div 10 \<le> 214748364" by simp
  then have "(print_rows (data output) ?n 0 :: ('d, unit) comp) =
      (concat (map (row_events (data output)) [0..<?n div 10]), Inr ())"
    using assms(2) by (rule print_rows_full)
  with unat_output_num [OF assms(1)]
  show ?thesis by (simp add: print_output_def Let_def seq_simps)
qed

lemma printed_floats_append: "printed_floats (xs @ ys) = printed_floats xs @ printed_floats ys"
  by (simp add: printed_floats_def)

lemma printed_floats_values:
  "printed_floats (concat (map (\<lambda>j. [E_cout_float (f j), E_cout_string s]) js)) = map f js"
  by (induction js) (simp_all add: printed_floats_def)

lemma printed_floats_printf: "printed_floats (E_printf a b # t) = printed_floats t"
  by (simp add: printed_floats_def)

lemma printed_floats_endl: "printed_floats [E_cout_endl] = []"
  by (simp add: printed_floats_def)

lemma printed_floats_row:
  "printed_floats (row_events bs i) = map (\<lambda>k. take 4 (drop (4 * k) bs)) [i * 10..<i * 10 + 10]"
proof -
  have "printed_floats (row_events bs i) = map (\<lambda>j. take 4 (drop (4 * (i * 10 + j)) bs)) [0..<10]"
    by (simp only: row_events_def printed_floats_printf printed_floats_append
        printed_floats_values printed_floats_endl append_Nil2)
  also have "\<dots> = map (\<lambda>k. take 4 (drop (4 * k) bs)) (map (\<lambda>j. j + i * 10) [0..<10])"
    by (simp add: add.commute)
  also have "map (\<lambda>j. j + i * 10) [0..<10] = [i * 10..<i * 10 + 10]"
    by (simp only: map_add_upt add.commute)
  finally show ?thesis .
qed

lemma printed_floats_rows:
  "printed_floats (concat (map (row_events bs) [0..<r])) = map (\<lambda>k. take 4 (drop (4 * k) bs)) [0..<r * 10]"
proof (induction r)
  case 0
  then show ?case by (simp add: printed_floats_def)
next
  case (Suc r)
  have "[0..<r * 10 + 10] = [0..<r * 10] @ [r * 10..<r * 10 + 10]"
    by (simp only: upt_add_eq_append [OF le0])
  then have "[0..<Suc r * 10] = [0..<r * 10] @ [r * 10..<r * 10 + 10]"
    by (simp add: add.commute)
  then show ?case using Suc
    by (simp add: printed_floats_append printed_floats_row)
qed

lemma printed_floats_setprecision:
  "printed_floats (E_cout_fixed_setprecision n # t) = printed_floats t"
  by (simp add: printed_floats_def)

lemma printed_floats_in_range:
  assumes "prod_list (map unat (Shape output)) < 2 ^ 31"
    and "4 * (prod_list (map unat (Shape output)) div 10 * 10) \<le> length (data output)"
  shows "printed_floats (fst (print_output output)) =
     map (\<lambda>k. take 4 (drop (4 * k) (data output)))
       [0..<prod_list (map unat (Shape output)) div 10 * 10]"
  by (simp only: print_output_in_range [OF assms] fst_conv printed_floats_rows
      printed_floats_setprecision)

text \<open>
  The scenario of the spec: an output of 23 elements. Two rows are printed, the elements
  0 to 19, and the last three elements are not.
\<close>

lemma print_output_23:
  "print_output \<lparr>Shape = [23], DataType = \<lparr>code = kDLFloat, bits = 32, lanes = 1\<rparr>,
       Device = \<lparr>device_type = kDLCPU, device_id = 0\<rparr>, data = replicate 92 0\<rparr> =
     (E_cout_fixed_setprecision 3 # row_events (replicate 92 0) 0 @ row_events (replicate 92 0) 1,
      Inr ())"
  using print_output_in_range [of "\<lparr>Shape = [23], DataType = \<lparr>code = kDLFloat, bits = 32, lanes = 1\<rparr>,
       Device = \<lparr>device_type = kDLCPU, device_id = 0\<rparr>, data = replicate 92 0\<rparr>"]
  by (simp add: upt_conv_Cons)

lemma printed_floats_23:
  "length (printed_floats (fst (print_output
      \<lparr>Shape = [23], DataType = \<lparr>code = kDLFloat, bits = 32, lanes = 1\<rparr>,
       Device = \<lparr>device_type = kDLCPU, device_id = 0\<rparr>, data = replicate 92 0\<rparr>
      :: ('d, unit) comp))) = 20"
proof -
  let ?output = "\<lparr>Shape = [23], DataType = \<lparr>code = kDLFloat, bits = 32, lanes = 1\<rparr>,
       Device = \<lparr>device_type = kDLCPU, device_id = 0\<rparr>, data = replicate 92 0\<rparr>"
  have "printed_floats (fst (print_output ?output :: ('d, unit) comp)) =
     map (\<lambda>k. take 4 (drop (4 * k) (data ?output)))
       [0..<prod_list (map unat (Shape ?output)) div 10 * 10]"
    by (rule printed_floats_in_range) simp_all
  then have "length (printed_floats (fst (print_output ?output :: ('d, unit) comp))) =
     prod_list (map unat (Shape ?output)) div 10 * 10"
    by (simp only: length_map length_upt diff_zero)
  then show ?thesis by simp
qed

text \<open>
  Claim C7, at an input where the source departs from it. The verbose toggle is \<open>ON\<close> and
  the output has shape \<open>[65536, 65536]\<close>, that is 4294967296 elements, so 429496729 rows
  are to be printed. The count of elements is computed by \<open>std::accumulate\<close> in an \<open>int\<close>
  and wraps to 0: the run sets the format of the stream and prints no row at all.
\<close>

theorem wrapped_count_prints_nothing:
  "prod_list (map unat [65536, 65536 :: 64 word]) div 10 = 429496729 \<and>
   inference
     (example_world (map_of [(''x.bin'', Regular [1, 2, 3, 4])])
        (map_of [(''cpp_bench_debug'', ''ON'')]) Map.empty)
     (example_executor\<lparr>input_shapes := [(''x'', [4])], input_dtypes := [(''x'', ''uint8'')],
        output_slots := [\<lparr>Shape = [65536, 65536],
                           DataType = \<lparr>code = kDLFloat, bits = 32, lanes = 1\<rparr>,
                           Device = \<lparr>device_type = kDLCPU, device_id = 0\<rparr>,
                           data = replicate 17179869184 0\<rparr>]\<rparr>)
     [(''x'', ''x.bin'')] \<lparr>device_type = kDLCPU, device_id = 0\<rparr> =
    ([E_enter ''inference'', E_get_input_info, E_exists ''x.bin'', E_ifstream ''x.bin'',
      E_Empty [4] \<lparr>code = 1, bits = 8, lanes = 1\<rparr> \<lparr>device_type = 1, device_id = 0\<rparr>,
      E_read ''x.bin'', E_CopyFromBytes 4,
      E_set_input ''x'' \<lparr>Shape = [4], DataType = \<lparr>code = 1, bits = 8, lanes = 1\<rparr>,
                          Device = \<lparr>device_type = 1, device_id = 0\<rparr>, data = [1, 2, 3, 4]\<rparr>,
      E_LOG ''Running graph executor...'', E_run, E_get_output 0, E_getenv ''cpp_bench_debug'',
      E_cout_fixed_setprecision 3],
     Inr ())"
  by (simp add: inference_def seq_simps seq_Pair_Inr load_input_unfold is_regular_file_def
      read_all_def input_size_def table_defs example_world_def example_executor_def slot_def
      print_output_def print_rows.simps [of _ 0 0] ok_def)

end
